theory Spec2Isabelle
  imports Complex_Main "HOL-Library.Multiset"
begin

section \<open>JavaScript values used by the scripts\<close>

text \<open>
  The repository holds three variants of one scheduled probe script:
  \<^item> \<^verbatim>\<open>src/index.js\<close>: calls every configured endpoint with literal query parameters;
  \<^item> \<^verbatim>\<open>src/unnamed/part_001\<close>: an Express server that calls one random endpoint with
    random query parameters, on a timer or through \<^verbatim>\<open>POST /trigger\<close>;
  \<^item> \<^verbatim>\<open>src/unnamed/part_000\<close>: the first, unguarded version of the random script.

  Strings are byte lists holding UTF-8 text. A JavaScript string is falsy exactly when it
  is empty; \<^verbatim>\<open>undefined\<close> is \<open>None\<close> and is falsy too.
\<close>

definition truthy :: "string option \<Rightarrow> bool" where
  "truthy v = (case v of None \<Rightarrow> False | Some s \<Rightarrow> s \<noteq> [])"

text \<open>\<^verbatim>\<open>Array.prototype.join\<close> with a separator.\<close>

fun join :: "string \<Rightarrow> string list \<Rightarrow> string" where
  "join sep [] = []"
| "join sep [x] = x"
| "join sep (x # y # ys) = x @ sep @ join sep (y # ys)"

text \<open>\<^verbatim>\<open>arr[i]\<close>: reading outside the array gives \<^verbatim>\<open>undefined\<close>.\<close>

definition elemAt :: "'a list \<Rightarrow> int \<Rightarrow> 'a option" where
  "elemAt arr i = (if 0 \<le> i \<and> i < int (length arr) then Some (arr ! nat i) else None)"

text \<open>
  \<^verbatim>\<open>String(n)\<close> for an integer \<open>n\<close> (decimal digits, a leading minus sign), as a
  template literal and \<^verbatim>\<open>encodeURIComponent\<close> convert a number. Integers of magnitude
  \<open>10\<^sup>2\<^sup>1\<close> and more print in exponent notation in JavaScript; they are outside this model.
\<close>

definition hexDigit :: "nat \<Rightarrow> char" where
  "hexDigit n = ''0123456789ABCDEF'' ! n"

fun showNat :: "nat \<Rightarrow> string" where
  "showNat n = (if n < 10 then [hexDigit n] else showNat (n div 10) @ [hexDigit (n mod 10)])"

definition showInt :: "int \<Rightarrow> string" where
  "showInt i = (if i < 0 then CHR ''-'' # showNat (nat (- i)) else showNat (nat i))"

text \<open>
  \<^verbatim>\<open>encodeURIComponent\<close>: letters, digits and \<^verbatim>\<open>- _ . ! ~ * ' ( )\<close> are kept, every other
  byte of the UTF-8 text becomes \<^verbatim>\<open>%XX\<close> with upper-case hexadecimal digits.
\<close>

definition unreserved :: "char list" where
  "unreserved =
     ''ABCDEFGHIJKLMNOPQRSTUVWXYZabcdefghijklmnopqrstuvwxyz0123456789-_.!~*()'' @ [CHR 0x27]"

definition encodeChar :: "char \<Rightarrow> string" where
  "encodeChar c =
     (if c \<in> set unreserved then [c]
      else [CHR ''%'', hexDigit (of_char c div 16), hexDigit (of_char c mod 16)])"

definition encodeURIComponent :: "string \<Rightarrow> string" where
  "encodeURIComponent s = concat (map encodeChar s)"

section \<open>Request Builder\<close>

text \<open>
  \<^verbatim>\<open>buildURL\<close> is the same function in \<^verbatim>\<open>index.js\<close> (lines 78-92) and in the server
  (lines 110-122): the endpoint and the query string are added when they are truthy.
\<close>

definition buildURL :: "string \<Rightarrow> string \<Rightarrow> string \<Rightarrow> string" where
  "buildURL baseURL endpoint queryString =
     (let url = baseURL;
          url = (if endpoint \<noteq> [] then url @ ''/'' @ endpoint else url);
          url = (if queryString \<noteq> [] then url @ ''?'' @ queryString else url)
      in url)"

section \<open>Collaborators and observable effects\<close>

text \<open>
  The scripts act on the outside world in three ways: they draw numbers from
  \<^verbatim>\<open>Math.random\<close>, they send requests with \<^verbatim>\<open>fetch\<close>, and they write to the console.
  The \<open>world\<close> record counts the draws and keeps the requests and the console lines in
  the order they were issued. The collaborators are parameters: \<open>rnd k\<close> is the value
  of the \<open>k\<close>-th call of \<^verbatim>\<open>Math.random\<close>, and \<open>net k url headers\<close> is what the \<open>k\<close>-th
  \<^verbatim>\<open>fetch\<close> settles to, \<open>Inl message\<close> for a rejected promise.
\<close>

datatype log = Info string | Err string

type_synonym headers = "(string \<times> string) list"

record response =
  r_url :: string
  r_status :: nat
  r_statusText :: string

text \<open>\<^verbatim>\<open>Response.ok\<close> of the Fetch standard: the status is in the range 200 to 299.\<close>

definition ok :: "response \<Rightarrow> bool" where
  "ok r = (200 \<le> r_status r \<and> r_status r \<le> 299)"

record world =
  draws :: nat
  calls :: "(string \<times> headers) list"
  console :: "log list"

type_synonym random = "nat \<Rightarrow> real"
type_synonym transport = "nat \<Rightarrow> string \<Rightarrow> headers \<Rightarrow> string + response"

definition mathRandom :: "random \<Rightarrow> world \<Rightarrow> real \<times> world" where
  "mathRandom rnd w = (rnd (draws w), w\<lparr>draws := Suc (draws w)\<rparr>)"

definition fetch :: "transport \<Rightarrow> string \<Rightarrow> headers \<Rightarrow> world \<Rightarrow> (string + response) \<times> world" where
  "fetch net url hdrs w = (net (length (calls w)) url hdrs, w\<lparr>calls := calls w @ [(url, hdrs)]\<rparr>)"

definition consoleLog :: "string \<Rightarrow> world \<Rightarrow> world" where
  "consoleLog line w = w\<lparr>console := console w @ [Info line]\<rparr>"

definition consoleError :: "string \<Rightarrow> world \<Rightarrow> world" where
  "consoleError line w = w\<lparr>console := console w @ [Err line]\<rparr>"

section \<open>Configuration\<close>

text \<open>
  The module-level bindings of a script. \<open>'p\<close> is the type of a query-parameter entry:
  \<^verbatim>\<open>{key, value}\<close> in \<^verbatim>\<open>index.js\<close>, \<^verbatim>\<open>{key, range}\<close> in the random scripts. The arrays are
  taken as JSON.parse delivers them for well-typed input: a list of strings and a list of
  entries with an integer range.
\<close>

datatype jsval = Str string | Num int

fun toString :: "jsval \<Rightarrow> string" where
  "toString (Str s) = s"
| "toString (Num n) = showInt n"

record QueryParam =
  key :: string
  "value" :: "jsval option"

record RangeParam =
  rkey :: string
  range :: int

record 'p config =
  cronTimer :: string
  baseURL :: string
  endpoints :: "string list"
  queryParams :: "'p list"

record index_config = "QueryParam config" +
  cronSecret :: "string option"

record server_config = "RangeParam config" +
  serverAuthToken :: string
  clientAuthToken :: "string option"

section \<open>The broadcast script, \<^verbatim>\<open>index.js\<close>\<close>

definition getAllEndpoints :: "string list \<Rightarrow> string list" where
  "getAllEndpoints arr = (if length arr = 0 then [] else arr)"

text \<open>The loop of \<^verbatim>\<open>buildQueryParams\<close> (lines 62-67): the pairs pushed to \<^verbatim>\<open>params\<close>.\<close>

fun literalPairs :: "QueryParam list \<Rightarrow> string list" where
  "literalPairs [] = []"
| "literalPairs (param # rest) =
     (case value param of
        Some v \<Rightarrow>
          (if key param \<noteq> []
           then (encodeURIComponent (key param) @ ''='' @ encodeURIComponent (toString v))
                  # literalPairs rest
           else literalPairs rest)
      | None \<Rightarrow> literalPairs rest)"

definition buildQueryParams :: "QueryParam list \<Rightarrow> string" where
  "buildQueryParams arr = (if length arr = 0 then [] else join ''&'' (literalPairs arr))"

definition createRequestHeaders_index :: "index_config \<Rightarrow> headers" where
  "createRequestHeaders_index cfg =
     [(''Content-Type'', ''application/json''), (''User-Agent'', ''CronJob/1.0.0'')] @
     (case cronSecret cfg of
        Some s \<Rightarrow> (if s \<noteq> [] then [(''X-Cron-Secret'', s)] else [])
      | None \<Rightarrow> [])"

text \<open>
  The promise of an \<^verbatim>\<open>async\<close> function settles: it is fulfilled with the returned value or
  rejected with what was thrown. \<^verbatim>\<open>makeRequest\<close> (lines 118-135) wraps its whole body in
  \<^verbatim>\<open>try/catch\<close>; the only operation of the body that can fail for well-typed
  configuration is \<^verbatim>\<open>fetch\<close>.

  A call of \<^verbatim>\<open>makeRequest\<close> runs in two parts. Up to the \<^verbatim>\<open>await\<close> (lines 120-129) it runs at
  once, inside the caller: it builds the URL, writes the request line and hands the
  request to \<^verbatim>\<open>fetch\<close>. The rest (line 131, or the \<^verbatim>\<open>catch\<close> block) runs later, when the
  promise of \<^verbatim>\<open>fetch\<close> has settled. \<open>makeRequest_start\<close> returns what that promise will
  settle to.
\<close>

datatype 'a settled = Fulfilled 'a | Rejected string

definition makeRequest_start :: "transport \<Rightarrow> index_config \<Rightarrow> string \<Rightarrow> world \<Rightarrow> (string + response) \<times> world" where
  "makeRequest_start net cfg endpoint w =
     (let queryString = buildQueryParams (queryParams cfg);
          url = buildURL (baseURL cfg) endpoint queryString;
          w1 = consoleLog (''Making request to: '' @ url) w
      in fetch net url (createRequestHeaders_index cfg) w1)"

definition makeRequest_resume :: "string \<Rightarrow> string + response \<Rightarrow> world \<Rightarrow> unit settled \<times> world" where
  "makeRequest_resume endpoint result w =
     (case result of
        Inr response \<Rightarrow>
          (Fulfilled (),
           consoleLog (r_url response @ '' - '' @ showNat (r_status response) @ '' ''
                         @ r_statusText response) w)
      | Inl message \<Rightarrow>
          (Fulfilled (),
           consoleError (''Error making request to '' @ endpoint @ '': '' @ message) w))"

text \<open>A single call whose promise is awaited with nothing running in between.\<close>

definition makeRequest :: "transport \<Rightarrow> index_config \<Rightarrow> string \<Rightarrow> world \<Rightarrow> unit settled \<times> world" where
  "makeRequest net cfg endpoint w =
     (let (result, w1) = makeRequest_start net cfg endpoint w
      in makeRequest_resume endpoint result w1)"

text \<open>
  \<^verbatim>\<open>endpointsToCall.map(endpoint => makeRequest(endpoint))\<close> (line 154) starts every call, in
  the order of the array, before any of them resumes: the result is one pending promise
  per endpoint, which remembers its index in the array, its endpoint and what its
  \<^verbatim>\<open>fetch\<close> will settle to.
\<close>

record pending =
  position :: nat
  target :: string
  settlement :: "string + response"

fun requests :: "transport \<Rightarrow> index_config \<Rightarrow> nat \<Rightarrow> string list \<Rightarrow> world \<Rightarrow> pending list \<times> world" where
  "requests net cfg i [] w = ([], w)"
| "requests net cfg i (endpoint # rest) w =
     (let (result, w1) = makeRequest_start net cfg endpoint w;
          (ps, w2) = requests net cfg (Suc i) rest w1
      in (\<lparr>position = i, target = endpoint, settlement = result\<rparr> # ps, w2))"

text \<open>
  The pending calls settle in an order the program does not control. The order is a
  parameter: a list of picks, each choosing (modulo the number of calls still pending)
  which of them settles next; when the picks run out, the remaining calls settle in the
  order of the array.
\<close>

fun settleOrder :: "nat list \<Rightarrow> 'a list \<Rightarrow> 'a list" where
  "settleOrder picks [] = []"
| "settleOrder [] xs = xs"
| "settleOrder (c # picks) xs =
     (let i = c mod length xs
      in xs ! i # settleOrder picks (take i xs @ drop (Suc i) xs))"

text \<open>
  \<^verbatim>\<open>await Promise.allSettled(requests)\<close> (line 157): as each call settles, the rest of its
  \<^verbatim>\<open>makeRequest\<close> runs and its result is stored at its index of the result array; the
  array is delivered when every call has settled. \<open>None\<close> marks an entry not settled yet.
\<close>

fun settle :: "pending list \<Rightarrow> unit settled option list \<Rightarrow> world \<Rightarrow> unit settled option list \<times> world" where
  "settle [] results w = (results, w)"
| "settle (p # ps) results w =
     (let (r, w1) = makeRequest_resume (target p) (settlement p) w
      in settle ps (results[position p := Some r]) w1)"

definition allSettled :: "nat list \<Rightarrow> pending list \<Rightarrow> world \<Rightarrow> unit settled option list \<times> world" where
  "allSettled picks ps w = settle (settleOrder picks ps) (replicate (length ps) None) w"

text \<open>
  The callback given to \<^verbatim>\<open>cron.schedule\<close> (lines 140-160), for one cycle in which the calls
  settle as \<open>picks\<close> says. The source discards the array that \<^verbatim>\<open>Promise.allSettled\<close>
  resolves to; the model returns it so that it can be observed. Console lines of other
  cycles running at the same time are not modelled.
\<close>

definition cronCallback :: "nat list \<Rightarrow> transport \<Rightarrow> index_config \<Rightarrow> world \<Rightarrow> unit settled option list \<times> world" where
  "cronCallback picks net cfg w =
     (let endpointsToCall = getAllEndpoints (endpoints cfg)
      in if length endpointsToCall = 0
         then ([], consoleLog ''No endpoints configured - skipping cron run'' w)
         else
           (let w1 = consoleLog (''Starting cron job - calling ''
                                   @ showNat (length endpointsToCall) @ '' endpoint(s)'') w;
                w2 = (if length (queryParams cfg) > 0
                      then consoleLog (''Using '' @ showNat (length (queryParams cfg))
                                         @ '' query parameter(s)'') w1
                      else w1);
                (pendings, w3) = requests net cfg 0 endpointsToCall w2;
                (batch, w4) = allSettled picks pendings w3
            in (batch,
                consoleLog (''Cron job completed - called ''
                              @ showNat (length endpointsToCall) @ '' endpoint(s)'') w4)))"

section \<open>The random scripts: selection\<close>

text \<open>
  \<^verbatim>\<open>getRandomEndpoint\<close> of the server (lines 73-78) and of the first version
  (\<^verbatim>\<open>part_000\<close>, lines 9-11). The result is \<open>None\<close> when the array read gives
  \<^verbatim>\<open>undefined\<close>.
\<close>

definition getRandomEndpoint :: "random \<Rightarrow> string list \<Rightarrow> world \<Rightarrow> string option \<times> world" where
  "getRandomEndpoint rnd arr w =
     (if length arr = 0 then (Some [], w)
      else (let (r, w1) = mathRandom rnd w
            in (elemAt arr \<lfloor>r * real (length arr)\<rfloor>, w1)))"

definition getRandomEndpoint_legacy :: "random \<Rightarrow> string list \<Rightarrow> world \<Rightarrow> string option \<times> world" where
  "getRandomEndpoint_legacy rnd arr w =
     (let (r, w1) = mathRandom rnd w
      in (elemAt arr \<lfloor>r * real (length arr)\<rfloor>, w1))"

text \<open>The loop of the server's \<^verbatim>\<open>getRandomQueryParams\<close> (lines 93-99).\<close>

fun randomPairs :: "random \<Rightarrow> RangeParam list \<Rightarrow> world \<Rightarrow> string list \<times> world" where
  "randomPairs rnd [] w = ([], w)"
| "randomPairs rnd (param # rest) w =
     (if rkey param \<noteq> [] \<and> range param \<noteq> 0
      then (let (r, w1) = mathRandom rnd w;
                v = \<lfloor>r * real_of_int (range param)\<rfloor> + 1;
                (params, w2) = randomPairs rnd rest w1
            in ((encodeURIComponent (rkey param) @ ''='' @ encodeURIComponent (showInt v))
                  # params, w2))
      else randomPairs rnd rest w)"

definition getRandomQueryParams :: "random \<Rightarrow> RangeParam list \<Rightarrow> world \<Rightarrow> string \<times> world" where
  "getRandomQueryParams rnd arr w =
     (if length arr = 0 then ([], w)
      else (let (params, w1) = randomPairs rnd arr w in (join ''&'' params, w1)))"

text \<open>
  \<^verbatim>\<open>getRandomQueryParams\<close> of the first version (\<^verbatim>\<open>part_000\<close>, lines 13-19): the loop
  appends to \<^verbatim>\<open>query\<close>, which starts empty.
\<close>

fun legacyLoop :: "random \<Rightarrow> string \<Rightarrow> RangeParam list \<Rightarrow> world \<Rightarrow> string \<times> world" where
  "legacyLoop rnd query [] w = (query, w)"
| "legacyLoop rnd query (param # rest) w =
     (let (r, w1) = mathRandom rnd w
      in legacyLoop rnd
           (query @ rkey param @ ''=''
              @ showInt (\<lfloor>r * real_of_int (range param)\<rfloor> + 1) @ ''&'')
           rest w1)"

definition getRandomQueryParams_legacy :: "random \<Rightarrow> RangeParam list \<Rightarrow> world \<Rightarrow> string \<times> world" where
  "getRandomQueryParams_legacy rnd arr w = legacyLoop rnd [] arr w"

section \<open>The server, \<^verbatim>\<open>part_001\<close>: dispatch\<close>

definition createRequestHeaders :: "server_config \<Rightarrow> headers" where
  "createRequestHeaders cfg =
     [(''Content-Type'', ''application/json''), (''User-Agent'', ''CronJob/1.0.0'')] @
     (case clientAuthToken cfg of
        Some t \<Rightarrow>
          (if t \<noteq> []
           then [(''Authorization'', if take 7 t = ''Bearer '' then t else ''Bearer '' @ t)]
           else [])
      | None \<Rightarrow> [])"

text \<open>The object \<^verbatim>\<open>executeCronJob\<close> returns (lines 163-175); \<open>error\<close> is absent on success.\<close>

record outcome =
  success :: bool
  url :: string
  status :: nat
  error :: "string option"

text \<open>
  \<^verbatim>\<open>executeCronJob\<close> (lines 148-177). An \<^verbatim>\<open>undefined\<close> endpoint is falsy in \<^verbatim>\<open>buildURL\<close>,
  as the empty string is.
\<close>

definition executeCronJob :: "random \<Rightarrow> transport \<Rightarrow> server_config \<Rightarrow> world \<Rightarrow> outcome \<times> world" where
  "executeCronJob rnd net cfg w =
     (let (endpoint, w1) = getRandomEndpoint rnd (endpoints cfg) w;
          (queryString, w2) = getRandomQueryParams rnd (queryParams cfg) w1;
          url = buildURL (baseURL cfg) (case endpoint of Some e \<Rightarrow> e | None \<Rightarrow> []) queryString;
          w3 = consoleLog (''Making request to: '' @ url) w2;
          (result, w4) = fetch net url (createRequestHeaders cfg) w3
      in case result of
           Inr response \<Rightarrow>
             (\<lparr>success = ok response, url = r_url response, status = r_status response,
               error = None\<rparr>,
              consoleLog (r_url response @ '' - '' @ showNat (r_status response) @ '' ''
                            @ r_statusText response) w4)
         | Inl message \<Rightarrow>
             (\<lparr>success = False, url = [], status = 0, error = Some message\<rparr>,
              consoleError (''Error making request: '' @ message) w4))"

section \<open>The server, \<^verbatim>\<open>part_001\<close>: control surface\<close>

datatype json = JString string | JNumber int | JBool bool | JObject "(string \<times> json) list"

record request =
  "method" :: string
  path :: string
  authorization :: "string option"

record http_response =
  statusCode :: nat
  body :: json

text \<open>
  \<^verbatim>\<open>authenticateRequest\<close> (lines 50-66): the middleware either answers the request itself
  or calls \<^verbatim>\<open>next()\<close>.
\<close>

datatype middleware = Respond http_response | Next

definition authenticateRequest :: "server_config \<Rightarrow> request \<Rightarrow> middleware" where
  "authenticateRequest cfg req =
     (case authorization req of
        None \<Rightarrow>
          Respond \<lparr>statusCode = 401,
                   body = JObject [(''error'', JString ''Authorization header required'')]\<rparr>
      | Some authHeader \<Rightarrow>
          (if authHeader = []
           then Respond \<lparr>statusCode = 401,
                         body = JObject [(''error'', JString ''Authorization header required'')]\<rparr>
           else (let token = (if take 7 authHeader = ''Bearer '' then drop 7 authHeader
                              else authHeader)
                 in if token \<noteq> serverAuthToken cfg
                    then Respond \<lparr>statusCode = 403,
                                  body = JObject [(''error'', JString ''Invalid token'')]\<rparr>
                    else Next)))"

definition outcomeJson :: "outcome \<Rightarrow> json" where
  "outcomeJson r =
     JObject ([(''success'', JBool (success r)), (''url'', JString (url r)),
               (''status'', JNumber (int (status r)))] @
              (case error r of Some message \<Rightarrow> [(''error'', JString message)] | None \<Rightarrow> []))"

text \<open>
  The three route handlers (lines 183-207). \<open>now\<close> is the text of
  \<^verbatim>\<open>new Date().toISOString()\<close>; \<^verbatim>\<open>res.json\<close> answers with status 200.
\<close>

definition healthHandler :: "string \<Rightarrow> http_response" where
  "healthHandler now =
     \<lparr>statusCode = 200,
      body = JObject [(''status'', JString ''healthy''), (''timestamp'', JString now)]\<rparr>"

definition triggerHandler :: "random \<Rightarrow> transport \<Rightarrow> server_config \<Rightarrow> string \<Rightarrow> world \<Rightarrow> http_response \<times> world" where
  "triggerHandler rnd net cfg now w =
     (let (result, w1) = executeCronJob rnd net cfg w
      in (\<lparr>statusCode = 200,
           body = JObject [(''message'', JString ''Cron job triggered manually''),
                           (''result'', outcomeJson result),
                           (''timestamp'', JString now)]\<rparr>, w1))"

definition statusHandler :: "server_config \<Rightarrow> string \<Rightarrow> http_response" where
  "statusHandler cfg now =
     \<lparr>statusCode = 200,
      body = JObject [(''cronTimer'', JString (cronTimer cfg)),
                      (''baseURL'', JString (baseURL cfg)),
                      (''endpointsCount'', JNumber (int (length (endpoints cfg)))),
                      (''queryParamsCount'', JNumber (int (length (queryParams cfg)))),
                      (''hasClientAuth'', JBool (truthy (clientAuthToken cfg))),
                      (''timestamp'', JString now)]\<rparr>"

text \<open>
  The routes registered on \<^verbatim>\<open>app\<close>. A request that matches none of them is left to
  Express (\<open>None\<close>). Method and path are compared as written; request bodies are not
  modelled.
\<close>

definition app :: "random \<Rightarrow> transport \<Rightarrow> server_config \<Rightarrow> string \<Rightarrow> request \<Rightarrow> world \<Rightarrow> http_response option \<times> world" where
  "app rnd net cfg now req w =
     (if method req = ''GET'' \<and> path req = ''/health'' then (Some (healthHandler now), w)
      else if method req = ''POST'' \<and> path req = ''/trigger'' then
        (case authenticateRequest cfg req of
           Respond res \<Rightarrow> (Some res, w)
         | Next \<Rightarrow> (let (res, w1) = triggerHandler rnd net cfg now w in (Some res, w1)))
      else if method req = ''GET'' \<and> path req = ''/status'' then
        (case authenticateRequest cfg req of
           Respond res \<Rightarrow> (Some res, w)
         | Next \<Rightarrow> (Some (statusHandler cfg now), w))
      else (None, w))"

section \<open>Startup\<close>

text \<open>
  The environment maps a variable name to its text. \<^verbatim>\<open>JSON.parse\<close> is a parameter: it
  gives \<open>Inl message\<close> for malformed text. A script either exits with a code, after a
  line on the error console, or goes on to register its schedule (and, for the server,
  to listen).
\<close>

type_synonym env = "string \<Rightarrow> string option"
type_synonym 'a parser = "string \<Rightarrow> string + 'a list"

datatype 'c startup = Exit nat string | Running 'c

text \<open>\<^verbatim>\<open>process.env.X ? JSON.parse(process.env.X) : []\<close>\<close>

definition parseOrEmpty :: "'a parser \<Rightarrow> string option \<Rightarrow> string + 'a list" where
  "parseOrEmpty parse v =
     (case v of Some s \<Rightarrow> (if s \<noteq> [] then parse s else Inr []) | None \<Rightarrow> Inr [])"

text \<open>\<^verbatim>\<open>index.js\<close>, lines 12-35.\<close>

definition startup_index :: "string parser \<Rightarrow> QueryParam parser \<Rightarrow> env \<Rightarrow> index_config startup" where
  "startup_index parseEndpoints parseParams env =
     (case (env ''CRON_TIMER'', env ''BASE_URL'') of
        (Some t, Some b) \<Rightarrow>
          (if t = [] \<or> b = []
           then Exit 1 ''Missing required environment variables: CRON_TIMER and BASE_URL''
           else (case parseOrEmpty parseEndpoints (env ''ENDPOINTS'') of
                   Inl message \<Rightarrow>
                     Exit 1 (''Error parsing JSON from environment variables: '' @ message)
                 | Inr es \<Rightarrow>
                     (case parseOrEmpty parseParams (env ''QUERY_PARAMS'') of
                        Inl message \<Rightarrow>
                          Exit 1 (''Error parsing JSON from environment variables: '' @ message)
                      | Inr qs \<Rightarrow>
                          Running \<lparr>cronTimer = t, baseURL = b, endpoints = es,
                                   queryParams = qs, cronSecret = env ''CRON_SECRET''\<rparr>)))
      | _ \<Rightarrow> Exit 1 ''Missing required environment variables: CRON_TIMER and BASE_URL'')"

text \<open>The server, lines 16-42.\<close>

definition startup_server :: "string parser \<Rightarrow> RangeParam parser \<Rightarrow> env \<Rightarrow> server_config startup" where
  "startup_server parseEndpoints parseParams env =
     (case (env ''CRON_TIMER'', env ''BASE_URL'', env ''SERVER_AUTH_TOKEN'') of
        (Some t, Some b, Some a) \<Rightarrow>
          (if t = [] \<or> b = [] \<or> a = []
           then Exit 1 ''Missing required environment variables''
           else (case parseOrEmpty parseEndpoints (env ''ENDPOINTS'') of
                   Inl message \<Rightarrow>
                     Exit 1 (''Error parsing JSON from environment variables: '' @ message)
                 | Inr es \<Rightarrow>
                     (case parseOrEmpty parseParams (env ''QUERY_PARAMS'') of
                        Inl message \<Rightarrow>
                          Exit 1 (''Error parsing JSON from environment variables: '' @ message)
                      | Inr qs \<Rightarrow>
                          Running \<lparr>cronTimer = t, baseURL = b, endpoints = es,
                                   queryParams = qs, serverAuthToken = a,
                                   clientAuthToken = env ''CLIENT_AUTH_TOKEN''\<rparr>)))
      | _ \<Rightarrow> Exit 1 ''Missing required environment variables'')"

section \<open>Example inputs\<close>

text \<open>
  A fresh process, a random source that always returns one half, a transport that
  answers every request with 200, one that fails every request, and one that fails
  the second request only.
\<close>

definition initialWorld :: world where
  "initialWorld = \<lparr>draws = 0, calls = [], console = []\<rparr>"

definition rndHalf :: random where
  "rndHalf k = 1 / 2"

definition netOK :: transport where
  "netOK k u hdrs = Inr \<lparr>r_url = u, r_status = 200, r_statusText = ''OK''\<rparr>"

definition netDown :: transport where
  "netDown k u hdrs = Inl ''fetch failed''"

definition netSecondFails :: transport where
  "netSecondFails k u hdrs =
     (if k = 1 then Inl ''fetch failed''
      else Inr \<lparr>r_url = u, r_status = 200, r_statusText = ''OK''\<rparr>)"

text \<open>
  Configurations with and without endpoints, requests to the protected routes, a JSON
  parser that accepts the empty array only, and two environments.
\<close>

definition emptyServer :: server_config where
  "emptyServer = \<lparr>cronTimer = ''* * * * *'', baseURL = ''https://h'', endpoints = [],
                   queryParams = [], serverAuthToken = ''s3cret'', clientAuthToken = None\<rparr>"

definition exampleServer :: server_config where
  "exampleServer = \<lparr>cronTimer = ''* * * * *'', baseURL = ''https://h'',
                     endpoints = [''a'', ''b'', ''c''],
                     queryParams = [\<lparr>rkey = ''x'', range = 10\<rparr>],
                     serverAuthToken = ''s3cret'', clientAuthToken = Some ''out''\<rparr>"

definition emptyIndex :: index_config where
  "emptyIndex = \<lparr>cronTimer = ''* * * * *'', baseURL = ''https://h'', endpoints = [],
                  queryParams = [], cronSecret = None\<rparr>"

definition exampleIndex :: index_config where
  "exampleIndex = \<lparr>cronTimer = ''* * * * *'', baseURL = ''https://h'',
                    endpoints = [''a'', ''b'', ''c''],
                    queryParams = [\<lparr>key = ''x'', value = Some (Num 5)\<rparr>],
                    cronSecret = None\<rparr>"

definition parseSample :: "'a parser" where
  "parseSample s = (if s = ''[]'' then Inr [] else Inl ''Unexpected token'')"

definition statusRequest :: "string option \<Rightarrow> request" where
  "statusRequest h = \<lparr>method = ''GET'', path = ''/status'', authorization = h\<rparr>"

definition triggerRequest :: "string option \<Rightarrow> request" where
  "triggerRequest h = \<lparr>method = ''POST'', path = ''/trigger'', authorization = h\<rparr>"

definition envMinimal :: env where
  "envMinimal name =
     (if name = ''CRON_TIMER'' then Some ''* * * * *''
      else if name = ''BASE_URL'' then Some ''https://h''
      else None)"

definition envBadParams :: env where
  "envBadParams name =
     (if name = ''CRON_TIMER'' then Some ''* * * * *''
      else if name = ''BASE_URL'' then Some ''https://h''
      else if name = ''SERVER_AUTH_TOKEN'' then Some ''s3cret''
      else if name = ''QUERY_PARAMS'' then Some ''[{''
      else None)"

section \<open>Properties of the Request Builder\<close>

text \<open>
  C2. \<^verbatim>\<open>buildURL\<close> returns the base URL unchanged when the endpoint and the query string
  are both empty; a non-empty endpoint is appended after exactly one inserted slash; and
  a question mark followed by the query string is appended exactly when the query string
  is non-empty. The function inserts one slash and never inspects the slashes its
  arguments already carry.
\<close>

theorem buildURL_shape:
  "buildURL base [] [] = base \<and>
   buildURL base endpoint queryString =
     base @ (if endpoint = [] then [] else ''/'' @ endpoint)
          @ (if queryString = [] then [] else ''?'' @ queryString)"
  by (simp add: buildURL_def)

theorem buildURL_shape_witness:
  "buildURL ''https://h'' ''e'' ''x=5'' = ''https://h/e?x=5'' \<and>
   buildURL ''https://h'' ''e'' [] = ''https://h/e'' \<and>
   buildURL ''https://h'' [] ''x=5'' = ''https://h?x=5'' \<and>
   buildURL ''https://h'' [] [] = ''https://h''"
  using buildURL_shape [of "''https://h''" "''e''" "''x=5''"]
    buildURL_shape [of "''https://h''" "''e''" "[]"]
    buildURL_shape [of "''https://h''" "[]" "''x=5''"]
  by simp

section \<open>Properties of selection\<close>

lemma floor_sample_int:
  fixes r :: real and n :: int
  assumes "0 \<le> r" "r < 1" "1 \<le> n"
  shows "0 \<le> \<lfloor>r * real_of_int n\<rfloor> \<and> \<lfloor>r * real_of_int n\<rfloor> < n"
proof -
  have pos: "0 < real_of_int n" using assms(3) by simp
  have "0 \<le> r * real_of_int n" using assms(1) pos by simp
  moreover have "r * real_of_int n < 1 * real_of_int n"
    using assms(2) pos by (rule mult_strict_right_mono)
  ultimately show ?thesis by (simp add: floor_less_iff)
qed

lemma floor_sample_nat:
  fixes r :: real and n :: nat
  assumes "0 \<le> r" "r < 1" "0 < n"
  shows "0 \<le> \<lfloor>r * real n\<rfloor> \<and> \<lfloor>r * real n\<rfloor> < int n"
  using floor_sample_int [of r "int n"] assms by simp

lemma rndHalf_apply: "rndHalf k = 1 / 2"
  by (simp add: rndHalf_def)

text \<open>
  Selection stays inside the array. Whenever \<^verbatim>\<open>Math.random\<close> returns a number \<open>r\<close> with
  \<open>0 \<le> r < 1\<close> and the array is non-empty, the index \<open>\<lfloor>r \<sqdot> n\<rfloor>\<close> is below the length
  \<open>n\<close>, and \<^verbatim>\<open>getRandomEndpoint\<close>, in the server and in the first version alike, returns an
  element of the array after one draw. For an empty array the server's
  \<^verbatim>\<open>getRandomEndpoint\<close> returns the empty string without drawing.
\<close>

theorem getRandomEndpoint_selects:
  assumes "0 \<le> rnd (draws w)" and "rnd (draws w) < 1"
  shows "(arr \<noteq> [] \<longrightarrow>
           \<lfloor>rnd (draws w) * real (length arr)\<rfloor> < int (length arr) \<and>
           (\<exists>e \<in> set arr. getRandomEndpoint rnd arr w = (Some e, w\<lparr>draws := Suc (draws w)\<rparr>) \<and>
                          getRandomEndpoint_legacy rnd arr w = (Some e, w\<lparr>draws := Suc (draws w)\<rparr>))) \<and>
         getRandomEndpoint rnd [] w = (Some [], w)"
proof -
  have empty: "getRandomEndpoint rnd [] w = (Some [], w)"
    by (simp add: getRandomEndpoint_def)
  have nonempty: "\<lfloor>rnd (draws w) * real (length arr)\<rfloor> < int (length arr) \<and>
           (\<exists>e \<in> set arr. getRandomEndpoint rnd arr w = (Some e, w\<lparr>draws := Suc (draws w)\<rparr>) \<and>
                          getRandomEndpoint_legacy rnd arr w = (Some e, w\<lparr>draws := Suc (draws w)\<rparr>))"
    if ne: "arr \<noteq> []"
  proof -
    let ?i = "\<lfloor>rnd (draws w) * real (length arr)\<rfloor>"
    have len: "0 < length arr" using ne by simp
    have b: "0 \<le> ?i \<and> ?i < int (length arr)"
      using floor_sample_nat [OF assms len] .
    then have idx: "nat ?i < length arr" by linarith
    have at: "elemAt arr ?i = Some (arr ! nat ?i)"
      using b by (simp add: elemAt_def)
    have mem: "arr ! nat ?i \<in> set arr" using idx by simp
    have g: "getRandomEndpoint rnd arr w = (Some (arr ! nat ?i), w\<lparr>draws := Suc (draws w)\<rparr>)"
      using ne at by (simp add: getRandomEndpoint_def mathRandom_def)
    have l: "getRandomEndpoint_legacy rnd arr w = (Some (arr ! nat ?i), w\<lparr>draws := Suc (draws w)\<rparr>)"
      using at by (simp add: getRandomEndpoint_legacy_def mathRandom_def)
    show ?thesis using b mem g l by blast
  qed
  show ?thesis using empty nonempty by blast
qed

theorem getRandomEndpoint_selects_witness:
  "0 \<le> rndHalf (draws initialWorld) \<and> rndHalf (draws initialWorld) < 1 \<and>
   getRandomEndpoint rndHalf [''a'', ''b'', ''c''] initialWorld
     = (Some ''b'', initialWorld\<lparr>draws := 1\<rparr>) \<and>
   getRandomEndpoint_legacy rndHalf [''a'', ''b'', ''c''] initialWorld
     = (Some ''b'', initialWorld\<lparr>draws := 1\<rparr>) \<and>
   getRandomEndpoint rndHalf [] initialWorld = (Some [], initialWorld)"
  using getRandomEndpoint_selects [of rndHalf initialWorld "[''a'', ''b'', ''c'']"]
  by (simp add: rndHalf_apply initialWorld_def getRandomEndpoint_def getRandomEndpoint_legacy_def
      mathRandom_def elemAt_def)

text \<open>
  C9. Single-random selection returns an element of a non-empty array and the empty
  string for an empty one. The server's function does; the first version
  (\<^verbatim>\<open>part_000\<close>, lines 9-11) lacks the guard: on the empty array it draws, reads \<^verbatim>\<open>arr[0]\<close>
  and returns \<^verbatim>\<open>undefined\<close>, not the empty string.
\<close>

theorem getRandomEndpoint_legacy_empty:
  "getRandomEndpoint_legacy rndHalf [] initialWorld = (None, initialWorld\<lparr>draws := 1\<rparr>) \<and>
   fst (getRandomEndpoint_legacy rndHalf [] initialWorld) \<noteq> Some []"
  by (simp add: getRandomEndpoint_legacy_def mathRandom_def elemAt_def initialWorld_def)

section \<open>Properties of the query string\<close>

lemma hexDigit_unreserved: "n < 16 \<Longrightarrow> hexDigit n \<in> set unreserved"
proof -
  assume "n < 16"
  then have "n < length ''0123456789ABCDEF''" by simp
  then have "hexDigit n \<in> set ''0123456789ABCDEF''"
    unfolding hexDigit_def by (rule nth_mem)
  moreover have "set ''0123456789ABCDEF'' \<subseteq> set unreserved"
    by (simp add: unreserved_def)
  ultimately show ?thesis by blast
qed

lemma encodeChar_chars: "set (encodeChar c) \<subseteq> set unreserved \<union> {CHR ''%''}"
proof -
  have "(of_char c :: nat) < 16 * 16" by simp
  then have "(of_char c :: nat) div 16 < 16" by (rule less_mult_imp_div_less)
  moreover have "(of_char c :: nat) mod 16 < 16" by simp
  ultimately show ?thesis
    using hexDigit_unreserved by (auto simp: encodeChar_def)
qed

lemma encodeURIComponent_chars:
  "set (encodeURIComponent s) \<subseteq> set unreserved \<union> {CHR ''%''}"
  using encodeChar_chars by (auto simp: encodeURIComponent_def)

lemma amp_not_unreserved: "CHR ''&'' \<notin> set unreserved \<union> {CHR ''%''}"
  by (simp add: unreserved_def)

lemma amp_not_encoded: "CHR ''&'' \<notin> set (encodeURIComponent s)"
  using encodeURIComponent_chars [of s] amp_not_unreserved by blast

lemma join_count:
  "\<forall>x \<in> set xs. c \<notin> set x \<Longrightarrow>
   length (filter (\<lambda>d. d = c) (join [c] xs)) = length xs - 1"
proof (induction "[c]" xs rule: join.induct)
  case 1
  then show ?case by simp
next
  case (2 x)
  then show ?case by (auto simp: filter_empty_conv)
next
  case (3 x y ys)
  then show ?case by (auto simp: filter_empty_conv)
qed

lemma join_last:
  "xs \<noteq> [] \<Longrightarrow> \<forall>x \<in> set xs. x \<noteq> [] \<and> last x \<noteq> c \<Longrightarrow> join sep xs \<noteq> [] \<and> last (join sep xs) \<noteq> c"
  by (induction sep xs rule: join.induct) auto

lemma literalPairs_eq:
  "literalPairs arr =
     map (\<lambda>p. encodeURIComponent (key p) @ ''='' @
               encodeURIComponent (case value p of Some v \<Rightarrow> toString v | None \<Rightarrow> []))
         (filter (\<lambda>p. key p \<noteq> [] \<and> value p \<noteq> None) arr)"
  by (induction arr) (auto split: option.splits)

lemma randomPairs_eq:
  "randomPairs rnd arr w =
     (map (\<lambda>(k, p). encodeURIComponent (rkey p) @ ''='' @
                     encodeURIComponent (showInt (\<lfloor>rnd k * real_of_int (range p)\<rfloor> + 1)))
          (enumerate (draws w) (filter (\<lambda>p. rkey p \<noteq> [] \<and> range p \<noteq> 0) arr)),
      w\<lparr>draws := draws w + length (filter (\<lambda>p. rkey p \<noteq> [] \<and> range p \<noteq> 0) arr)\<rparr>)"
proof (induction arr arbitrary: w)
  case Nil
  then show ?case by simp
next
  case (Cons param rest)
  show ?case
  proof (cases "rkey param \<noteq> [] \<and> range param \<noteq> 0")
    case True
    then show ?thesis
      by (simp add: Cons.IH mathRandom_def)
  next
    case False
    then show ?thesis
      using Cons.IH [of w] by auto
  qed
qed

lemma legacyLoop_eq:
  "legacyLoop rnd query arr w =
     (query @ concat (map (\<lambda>(k, p). rkey p @ ''='' @
                             showInt (\<lfloor>rnd k * real_of_int (range p)\<rfloor> + 1) @ ''&'')
                          (enumerate (draws w) arr)),
      w\<lparr>draws := draws w + length arr\<rparr>)"
  by (induction arr arbitrary: query w) (simp_all add: mathRandom_def)

lemma getRandomQueryParams_eq:
  "getRandomQueryParams rnd arr w =
     (join ''&''
        (map (\<lambda>(k, p). encodeURIComponent (rkey p) @ ''='' @
                     encodeURIComponent (showInt (\<lfloor>rnd k * real_of_int (range p)\<rfloor> + 1)))
          (enumerate (draws w) (filter (\<lambda>p. rkey p \<noteq> [] \<and> range p \<noteq> 0) arr))),
      w\<lparr>draws := draws w + length (filter (\<lambda>p. rkey p \<noteq> [] \<and> range p \<noteq> 0) arr)\<rparr>)"
  by (cases arr) (simp_all add: getRandomQueryParams_def randomPairs_eq del: randomPairs.simps)

text \<open>
  C6. Let every value of \<^verbatim>\<open>Math.random\<close> lie in \<open>[0, 1)\<close>. In the server, the pairs of the
  query string come from the entries with a non-empty key and a non-zero range, in
  order; in the first version from all entries. The entry that meets draw number \<open>k\<close>
  gets the value \<open>\<lfloor>rnd k \<sqdot> range\<rfloor> + 1\<close>; the draws are consecutive, one per pair, starting
  at the number of draws made before, and the counter is advanced past them, so no draw
  is used twice, neither within a dispatch nor by a later one. For a range \<open>N \<ge> 1\<close> the
  value lies between \<open>1\<close> and \<open>N\<close>, both included.
\<close>

theorem random_values_in_range:
  assumes uniform: "\<forall>k. 0 \<le> rnd k \<and> rnd k < 1"
  shows "getRandomQueryParams rnd arr w =
           (join ''&''
              (map (\<lambda>(k, p). encodeURIComponent (rkey p) @ ''='' @
                     encodeURIComponent (showInt (\<lfloor>rnd k * real_of_int (range p)\<rfloor> + 1)))
                   (enumerate (draws w) (filter (\<lambda>p. rkey p \<noteq> [] \<and> range p \<noteq> 0) arr))),
            w\<lparr>draws := draws w + length (filter (\<lambda>p. rkey p \<noteq> [] \<and> range p \<noteq> 0) arr)\<rparr>) \<and>
         getRandomQueryParams_legacy rnd arr w =
           (concat (map (\<lambda>(k, p). rkey p @ ''='' @
                             showInt (\<lfloor>rnd k * real_of_int (range p)\<rfloor> + 1) @ ''&'')
                        (enumerate (draws w) arr)),
            w\<lparr>draws := draws w + length arr\<rparr>) \<and>
         (\<forall>k. \<forall>p \<in> set arr. 1 \<le> range p \<longrightarrow>
            1 \<le> \<lfloor>rnd k * real_of_int (range p)\<rfloor> + 1 \<and>
            \<lfloor>rnd k * real_of_int (range p)\<rfloor> + 1 \<le> range p)"
proof -
  have bounds: "1 \<le> \<lfloor>rnd k * real_of_int n\<rfloor> + 1 \<and> \<lfloor>rnd k * real_of_int n\<rfloor> + 1 \<le> n"
    if "1 \<le> n" for k n
    using floor_sample_int [of "rnd k" n] uniform that by simp
  have legacy: "getRandomQueryParams_legacy rnd arr w =
           (concat (map (\<lambda>(k, p). rkey p @ ''='' @
                             showInt (\<lfloor>rnd k * real_of_int (range p)\<rfloor> + 1) @ ''&'')
                        (enumerate (draws w) arr)),
            w\<lparr>draws := draws w + length arr\<rparr>)"
    by (simp add: getRandomQueryParams_legacy_def legacyLoop_eq)
  show ?thesis
    using getRandomQueryParams_eq [of rnd arr w] legacy bounds by blast
qed

theorem random_values_in_range_witness:
  "getRandomQueryParams rndHalf [\<lparr>rkey = ''x'', range = 10\<rparr>, \<lparr>rkey = ''y'', range = 1\<rparr>] initialWorld
     = (''x=6&y=1'', initialWorld\<lparr>draws := 2\<rparr>) \<and>
   getRandomQueryParams_legacy rndHalf [\<lparr>rkey = ''x'', range = 10\<rparr>, \<lparr>rkey = ''y'', range = 1\<rparr>]
       initialWorld
     = (''x=6&y=1&'', initialWorld\<lparr>draws := 2\<rparr>) \<and>
   1 \<le> \<lfloor>rndHalf 0 * real_of_int 10\<rfloor> + 1 \<and> \<lfloor>rndHalf 0 * real_of_int 10\<rfloor> + 1 \<le> 10 \<and>
   1 \<le> \<lfloor>rndHalf 1 * real_of_int 1\<rfloor> + 1 \<and> \<lfloor>rndHalf 1 * real_of_int 1\<rfloor> + 1 \<le> 1"
proof -
  let ?arr = "[\<lparr>rkey = ''x'', range = 10\<rparr>, \<lparr>rkey = ''y'', range = 1\<rparr>]"
  have uniform: "\<forall>k. 0 \<le> rndHalf k \<and> rndHalf k < 1"
    by (simp add: rndHalf_apply)
  note inst = random_values_in_range [OF uniform, of ?arr initialWorld]
  have server: "getRandomQueryParams rndHalf ?arr initialWorld
                  = (''x=6&y=1'', initialWorld\<lparr>draws := 2\<rparr>)"
    by (subst inst [THEN conjunct1])
       (simp add: rndHalf_apply initialWorld_def showInt_def hexDigit_def
          encodeURIComponent_def encodeChar_def unreserved_def)
  have legacy: "getRandomQueryParams_legacy rndHalf ?arr initialWorld
                  = (''x=6&y=1&'', initialWorld\<lparr>draws := 2\<rparr>)"
    by (subst inst [THEN conjunct2, THEN conjunct1])
       (simp add: rndHalf_apply initialWorld_def showInt_def hexDigit_def)
  have bounds:
    "\<forall>p \<in> set ?arr. 1 \<le> range p \<longrightarrow>
       1 \<le> \<lfloor>rndHalf k * real_of_int (range p)\<rfloor> + 1 \<and>
       \<lfloor>rndHalf k * real_of_int (range p)\<rfloor> + 1 \<le> range p" for k
    using inst [THEN conjunct2, THEN conjunct2] by blast
  show ?thesis
    using server legacy bounds [of 0] bounds [of 1] by simp
qed

lemma pair_no_amp:
  "CHR ''&'' \<notin> set (encodeURIComponent a @ ''='' @ encodeURIComponent b)"
  using amp_not_encoded [of a] amp_not_encoded [of b] by simp

lemma join_pairs:
  assumes "\<forall>x \<in> set xs. CHR ''&'' \<notin> set x \<and> x \<noteq> []"
  shows "length (filter (\<lambda>c. c = CHR ''&'') (join ''&'' xs)) = length xs - 1 \<and>
         (join ''&'' xs \<noteq> [] \<longrightarrow> last (join ''&'' xs) \<noteq> CHR ''&'')"
proof -
  have count: "length (filter (\<lambda>c. c = CHR ''&'') (join ''&'' xs)) = length xs - 1"
    using assms join_count [of xs "CHR ''&''"] by simp
  have "last (join ''&'' xs) \<noteq> CHR ''&''" if "join ''&'' xs \<noteq> []"
  proof -
    from that have ne: "xs \<noteq> []" by auto
    have "\<forall>x \<in> set xs. x \<noteq> [] \<and> last x \<noteq> CHR ''&''"
    proof
      fix x assume x: "x \<in> set xs"
      with assms have "CHR ''&'' \<notin> set x" "x \<noteq> []" by auto
      then show "x \<noteq> [] \<and> last x \<noteq> CHR ''&''"
        using last_in_set [of x] by metis
    qed
    with ne show ?thesis using join_last by blast
  qed
  with count show ?thesis by blast
qed

text \<open>
  In \<^verbatim>\<open>index.js\<close> and in the server, the query string is the pairs of the included
  entries joined with an ampersand; each pair is the percent-encoded key, an equals sign
  and the percent-encoded value. An encoded text holds no ampersand, so the query string
  holds exactly one ampersand less than it has pairs, and it never ends in one.
\<close>

theorem query_pairs_encoded:
  "buildQueryParams arr =
     join ''&''
       (map (\<lambda>p. encodeURIComponent (key p) @ ''='' @
                 encodeURIComponent (case value p of Some v \<Rightarrow> toString v | None \<Rightarrow> []))
            (filter (\<lambda>p. key p \<noteq> [] \<and> value p \<noteq> None) arr)) \<and>
   fst (getRandomQueryParams rnd ps w) =
     join ''&''
       (map (\<lambda>(k, p). encodeURIComponent (rkey p) @ ''='' @
                 encodeURIComponent (showInt (\<lfloor>rnd k * real_of_int (range p)\<rfloor> + 1)))
            (enumerate (draws w) (filter (\<lambda>p. rkey p \<noteq> [] \<and> range p \<noteq> 0) ps))) \<and>
   length (filter (\<lambda>c. c = CHR ''&'') (buildQueryParams arr)) =
     length (filter (\<lambda>p. key p \<noteq> [] \<and> value p \<noteq> None) arr) - 1 \<and>
   length (filter (\<lambda>c. c = CHR ''&'') (fst (getRandomQueryParams rnd ps w))) =
     length (filter (\<lambda>p. rkey p \<noteq> [] \<and> range p \<noteq> 0) ps) - 1 \<and>
   (buildQueryParams arr \<noteq> [] \<longrightarrow> last (buildQueryParams arr) \<noteq> CHR ''&'') \<and>
   (fst (getRandomQueryParams rnd ps w) \<noteq> [] \<longrightarrow>
      last (fst (getRandomQueryParams rnd ps w)) \<noteq> CHR ''&'')"
proof -
  let ?lit = "map (\<lambda>p. encodeURIComponent (key p) @ ''='' @
                 encodeURIComponent (case value p of Some v \<Rightarrow> toString v | None \<Rightarrow> []))
            (filter (\<lambda>p. key p \<noteq> [] \<and> value p \<noteq> None) arr)"
  let ?rnd = "map (\<lambda>(k, p). encodeURIComponent (rkey p) @ ''='' @
                 encodeURIComponent (showInt (\<lfloor>rnd k * real_of_int (range p)\<rfloor> + 1)))
            (enumerate (draws w) (filter (\<lambda>p. rkey p \<noteq> [] \<and> range p \<noteq> 0) ps))"
  have b: "buildQueryParams arr = join ''&'' ?lit"
    by (cases arr) (simp_all add: buildQueryParams_def literalPairs_eq del: literalPairs.simps)
  have g: "fst (getRandomQueryParams rnd ps w) = join ''&'' ?rnd"
    by (simp add: getRandomQueryParams_eq)
  have "\<forall>x \<in> set ?lit. CHR ''&'' \<notin> set x \<and> x \<noteq> []"
    using pair_no_amp by auto
  from join_pairs [OF this] have pl: 
    "length (filter (\<lambda>c. c = CHR ''&'') (join ''&'' ?lit)) = length ?lit - 1 \<and>
     (join ''&'' ?lit \<noteq> [] \<longrightarrow> last (join ''&'' ?lit) \<noteq> CHR ''&'')" .
  have "\<forall>x \<in> set ?rnd. CHR ''&'' \<notin> set x \<and> x \<noteq> []"
    using pair_no_amp by auto
  from join_pairs [OF this] have pr:
    "length (filter (\<lambda>c. c = CHR ''&'') (join ''&'' ?rnd)) = length ?rnd - 1 \<and>
     (join ''&'' ?rnd \<noteq> [] \<longrightarrow> last (join ''&'' ?rnd) \<noteq> CHR ''&'')" .
  have ll: "length ?lit = length (filter (\<lambda>p. key p \<noteq> [] \<and> value p \<noteq> None) arr)"
    by simp
  have lr: "length ?rnd = length (filter (\<lambda>p. rkey p \<noteq> [] \<and> range p \<noteq> 0) ps)"
    by simp
  show ?thesis
    unfolding b g using pl pr ll lr by simp
qed

theorem query_pairs_encoded_witness:
  "buildQueryParams [\<lparr>key = ''a b'', value = Some (Str ''x&y'')\<rparr>, \<lparr>key = ''n'', value = Some (Num 5)\<rparr>,
                     \<lparr>key = ''skipped'', value = None\<rparr>]
     = ''a%20b=x%26y&n=5'' \<and>
   fst (getRandomQueryParams rndHalf [\<lparr>rkey = ''x'', range = 10\<rparr>, \<lparr>rkey = ''y z'', range = 3\<rparr>] initialWorld)
     = ''x=6&y%20z=2''"
  using query_pairs_encoded [of "[\<lparr>key = ''a b'', value = Some (Str ''x&y'')\<rparr>, \<lparr>key = ''n'', value = Some (Num 5)\<rparr>,
                     \<lparr>key = ''skipped'', value = None\<rparr>]" rndHalf "[\<lparr>rkey = ''x'', range = 10\<rparr>, \<lparr>rkey = ''y z'', range = 3\<rparr>]" initialWorld]
  by (simp add: rndHalf_apply initialWorld_def
      showInt_def hexDigit_def encodeURIComponent_def encodeChar_def unreserved_def)

text \<open>
  C7. Every pair of a built query string holds the percent-encoded key and value, and
  the pairs are joined with ampersands with no trailing separator. The first version
  (\<^verbatim>\<open>part_000\<close>, lines 13-19) writes the key as it is and ends every pair, the last one
  too, with an ampersand: for the key \<^verbatim>\<open>a b\<close> with range 1 it yields \<^verbatim>\<open>a b=1&\<close>, where
  the encoded key is \<^verbatim>\<open>a%20b\<close>.
\<close>

theorem getRandomQueryParams_legacy_raw:
  "getRandomQueryParams_legacy rndHalf [\<lparr>rkey = ''a b'', range = 1\<rparr>] initialWorld =
     (''a b=1&'', initialWorld\<lparr>draws := 1\<rparr>) \<and>
   encodeURIComponent ''a b'' = ''a%20b''"
  by (simp add: getRandomQueryParams_legacy_def mathRandom_def rndHalf_apply initialWorld_def
      showInt_def hexDigit_def encodeURIComponent_def encodeChar_def unreserved_def)

section \<open>Properties of the dispatcher\<close>

lemma getRandomEndpoint_frame:
  "calls (snd (getRandomEndpoint rnd arr w)) = calls w \<and>
   console (snd (getRandomEndpoint rnd arr w)) = console w"
  by (simp add: getRandomEndpoint_def mathRandom_def)

lemma getRandomQueryParams_frame:
  "calls (snd (getRandomQueryParams rnd arr w)) = calls w \<and>
   console (snd (getRandomQueryParams rnd arr w)) = console w"
  by (simp add: getRandomQueryParams_eq)

lemma executeCronJob_unfold:
  "executeCronJob rnd net cfg w =
     (let sel = getRandomEndpoint rnd (endpoints cfg) w;
          qp = getRandomQueryParams rnd (queryParams cfg) (snd sel);
          u = buildURL (baseURL cfg) (case fst sel of Some e \<Rightarrow> e | None \<Rightarrow> []) (fst qp);
          w3 = consoleLog (''Making request to: '' @ u) (snd qp);
          w4 = w3\<lparr>calls := calls w3 @ [(u, createRequestHeaders cfg)]\<rparr>
      in case net (length (calls w)) u (createRequestHeaders cfg) of
           Inr response \<Rightarrow>
             (\<lparr>success = ok response, url = r_url response, status = r_status response,
               error = None\<rparr>,
              consoleLog (r_url response @ '' - '' @ showNat (r_status response) @ '' ''
                            @ r_statusText response) w4)
         | Inl message \<Rightarrow>
             (\<lparr>success = False, url = [], status = 0, error = Some message\<rparr>,
              consoleError (''Error making request: '' @ message) w4))"
  using getRandomEndpoint_frame [of rnd "endpoints cfg" w]
    getRandomQueryParams_frame [of rnd "queryParams cfg" "snd (getRandomEndpoint rnd (endpoints cfg) w)"]
  by (simp add: executeCronJob_def fetch_def consoleLog_def Let_def case_prod_beta)

text \<open>
  C10. \<^verbatim>\<open>executeCronJob\<close> is a total function of the random source, the transport, the
  configuration and the world: it sends exactly one request and returns an outcome
  whatever the transport does. When the transport fails with a message, the outcome is
  \<^verbatim>\<open>{success: false, url: '', status: 0, error: message}\<close>; when it delivers a response, the
  outcome carries the response's URL and status, no error, and \<open>success\<close> holds exactly
  when the status lies between 200 and 299.
\<close>

theorem executeCronJob_outcome:
  "\<exists>u. calls (snd (executeCronJob rnd net cfg w)) = calls w @ [(u, createRequestHeaders cfg)] \<and>
       (case net (length (calls w)) u (createRequestHeaders cfg) of
          Inl message \<Rightarrow>
            fst (executeCronJob rnd net cfg w)
              = \<lparr>success = False, url = [], status = 0, error = Some message\<rparr>
        | Inr response \<Rightarrow>
            fst (executeCronJob rnd net cfg w)
              = \<lparr>success = (200 \<le> r_status response \<and> r_status response \<le> 299),
                 url = r_url response, status = r_status response, error = None\<rparr>)"
proof -
  let ?sel = "getRandomEndpoint rnd (endpoints cfg) w"
  let ?qp = "getRandomQueryParams rnd (queryParams cfg) (snd ?sel)"
  let ?u = "buildURL (baseURL cfg) (case fst ?sel of Some e \<Rightarrow> e | None \<Rightarrow> []) (fst ?qp)"
  have c: "calls (snd ?qp) = calls w"
    using getRandomEndpoint_frame getRandomQueryParams_frame by simp
  have "calls (snd (executeCronJob rnd net cfg w)) = calls w @ [(?u, createRequestHeaders cfg)] \<and>
       (case net (length (calls w)) ?u (createRequestHeaders cfg) of
          Inl message \<Rightarrow>
            fst (executeCronJob rnd net cfg w)
              = \<lparr>success = False, url = [], status = 0, error = Some message\<rparr>
        | Inr response \<Rightarrow>
            fst (executeCronJob rnd net cfg w)
              = \<lparr>success = (200 \<le> r_status response \<and> r_status response \<le> 299),
                 url = r_url response, status = r_status response, error = None\<rparr>)"
    using c
    by (simp add: executeCronJob_unfold Let_def consoleLog_def consoleError_def ok_def
        split: sum.splits)
  then show ?thesis by blast
qed

theorem executeCronJob_outcome_witness:
  "executeCronJob rndHalf netDown exampleServer initialWorld
     = (\<lparr>success = False, url = [], status = 0, error = Some ''fetch failed''\<rparr>,
        \<lparr>draws = 2,
         calls = [(''https://h/b?x=6'',
                   [(''Content-Type'', ''application/json''), (''User-Agent'', ''CronJob/1.0.0''),
                    (''Authorization'', ''Bearer out'')])],
         console = [Info ''Making request to: https://h/b?x=6'',
                    Err ''Error making request: fetch failed'']\<rparr>) \<and>
   fst (executeCronJob rndHalf netOK exampleServer initialWorld)
     = \<lparr>success = True, url = ''https://h/b?x=6'', status = 200, error = None\<rparr>"
proof -
  have down: "executeCronJob rndHalf netDown exampleServer initialWorld
     = (\<lparr>success = False, url = [], status = 0, error = Some ''fetch failed''\<rparr>,
        \<lparr>draws = 2,
         calls = [(''https://h/b?x=6'',
                   [(''Content-Type'', ''application/json''), (''User-Agent'', ''CronJob/1.0.0''),
                    (''Authorization'', ''Bearer out'')])],
         console = [Info ''Making request to: https://h/b?x=6'',
                    Err ''Error making request: fetch failed'']\<rparr>)"
    by (simp add: Let_def executeCronJob_def exampleServer_def initialWorld_def netDown_def
        getRandomEndpoint_def getRandomQueryParams_def mathRandom_def rndHalf_apply elemAt_def
        buildURL_def createRequestHeaders_def fetch_def consoleLog_def consoleError_def
        showInt_def hexDigit_def encodeURIComponent_def encodeChar_def unreserved_def)
  have up: "fst (executeCronJob rndHalf netOK exampleServer initialWorld)
     = \<lparr>success = True, url = ''https://h/b?x=6'', status = 200, error = None\<rparr>"
    by (simp add: Let_def executeCronJob_def exampleServer_def initialWorld_def netOK_def ok_def
        getRandomEndpoint_def getRandomQueryParams_def mathRandom_def rndHalf_apply elemAt_def
        buildURL_def createRequestHeaders_def fetch_def consoleLog_def consoleError_def
        showInt_def hexDigit_def encodeURIComponent_def encodeChar_def unreserved_def)
  show ?thesis
    using executeCronJob_outcome [of rndHalf netDown exampleServer initialWorld] down up
    by simp
qed

text \<open>
  With an empty endpoint array the two dispatch paths differ. The callback of
  \<^verbatim>\<open>index.js\<close> has a gate (lines 143-146): it sends no request, delivers an empty batch
  and writes one informational line. The server's \<^verbatim>\<open>executeCronJob\<close> has none: it selects
  the empty endpoint, sends one request to the base URL followed by the query string,
  if any, and returns the outcome of that request; the trigger handler does the same.
\<close>

lemma getRandomEndpoint_empty: "getRandomEndpoint rnd [] w = (Some [], w)"
  by (simp add: getRandomEndpoint_def)

lemma cronCallback_empty:
  "endpoints cfg = [] \<Longrightarrow>
   cronCallback picks net cfg w
     = ([], w\<lparr>console := console w @ [Info ''No endpoints configured - skipping cron run'']\<rparr>)"
  by (simp add: cronCallback_def getAllEndpoints_def consoleLog_def)

lemma executeCronJob_empty:
  assumes "endpoints cfg = []"
  shows "calls (snd (executeCronJob rnd net cfg w))
           = calls w @ [(buildURL (baseURL cfg) [] (fst (getRandomQueryParams rnd (queryParams cfg) w)),
                         createRequestHeaders cfg)] \<and>
         fst (executeCronJob rnd net cfg w)
           = (case net (length (calls w))
                    (buildURL (baseURL cfg) [] (fst (getRandomQueryParams rnd (queryParams cfg) w)))
                    (createRequestHeaders cfg) of
                Inl message \<Rightarrow> \<lparr>success = False, url = [], status = 0, error = Some message\<rparr>
              | Inr response \<Rightarrow>
                  \<lparr>success = ok response, url = r_url response, status = r_status response,
                   error = None\<rparr>) \<and>
         snd (triggerHandler rnd net cfg now w) = snd (executeCronJob rnd net cfg w)"
proof -
  have t: "snd (triggerHandler rnd net cfg now w) = snd (executeCronJob rnd net cfg w)"
    by (simp add: triggerHandler_def case_prod_beta)
  show ?thesis
    using assms getRandomQueryParams_frame [of rnd "queryParams cfg" w] t
    by (simp add: executeCronJob_unfold getRandomEndpoint_empty Let_def consoleLog_def
        consoleError_def split: sum.splits)
qed

text \<open>
  C1. A dispatch cycle over an empty endpoint set performs no outbound call and reports
  a no-op. The callback of \<^verbatim>\<open>index.js\<close> does so. The server does not: with no endpoints,
  the base URL \<^verbatim>\<open>https://h\<close> and a transport that answers 200, \<^verbatim>\<open>executeCronJob\<close> sends one
  request to \<^verbatim>\<open>https://h\<close> and returns a successful outcome, fired by the scheduler or
  through \<^verbatim>\<open>POST /trigger\<close>.
\<close>

theorem empty_endpoints_server_calls:
  "endpoints emptyIndex = [] \<and>
   cronCallback [] netOK emptyIndex initialWorld
     = ([], \<lparr>draws = 0, calls = [],
             console = [Info ''No endpoints configured - skipping cron run'']\<rparr>) \<and>
   endpoints emptyServer = [] \<and>
   executeCronJob rndHalf netOK emptyServer initialWorld
     = (\<lparr>success = True, url = ''https://h'', status = 200, error = None\<rparr>,
        \<lparr>draws = 0,
         calls = [(''https://h'', [(''Content-Type'', ''application/json''),
                                  (''User-Agent'', ''CronJob/1.0.0'')])],
         console = [Info ''Making request to: https://h'', Info ''https://h - 200 OK'']\<rparr>) \<and>
   length (calls (snd (executeCronJob rndHalf netOK emptyServer initialWorld))) \<noteq> 0 \<and>
   calls (snd (app rndHalf netOK emptyServer ''t'' (triggerRequest (Some ''s3cret'')) initialWorld))
     = [(''https://h'', [(''Content-Type'', ''application/json''),
                        (''User-Agent'', ''CronJob/1.0.0'')])]"
proof -
  have i: "cronCallback [] netOK emptyIndex initialWorld
     = ([], \<lparr>draws = 0, calls = [],
             console = [Info ''No endpoints configured - skipping cron run'']\<rparr>)"
    by (simp add: cronCallback_def getAllEndpoints_def consoleLog_def emptyIndex_def
        initialWorld_def)
  have s: "executeCronJob rndHalf netOK emptyServer initialWorld
     = (\<lparr>success = True, url = ''https://h'', status = 200, error = None\<rparr>,
        \<lparr>draws = 0,
         calls = [(''https://h'', [(''Content-Type'', ''application/json''),
                                  (''User-Agent'', ''CronJob/1.0.0'')])],
         console = [Info ''Making request to: https://h'', Info ''https://h - 200 OK'']\<rparr>)"
    by (simp add: Let_def executeCronJob_def emptyServer_def initialWorld_def netOK_def ok_def
        getRandomEndpoint_def getRandomQueryParams_def
        buildURL_def createRequestHeaders_def fetch_def consoleLog_def
        hexDigit_def)
  have a: "authenticateRequest emptyServer (triggerRequest (Some ''s3cret'')) = Next"
    by (simp add: authenticateRequest_def triggerRequest_def emptyServer_def)
  have t: "calls (snd (app rndHalf netOK emptyServer ''t'' (triggerRequest (Some ''s3cret''))
                         initialWorld))
             = calls (snd (executeCronJob rndHalf netOK emptyServer initialWorld))"
    using a by (simp add: app_def triggerHandler_def case_prod_beta triggerRequest_def)
  show ?thesis
    unfolding t s i by (simp add: emptyIndex_def emptyServer_def)
qed

lemma makeRequest_start_eq:
  "makeRequest_start net cfg endpoint w =
     (net (length (calls w))
        (buildURL (baseURL cfg) endpoint (buildQueryParams (queryParams cfg)))
        (createRequestHeaders_index cfg),
      w\<lparr>calls := calls w @ [(buildURL (baseURL cfg) endpoint (buildQueryParams (queryParams cfg)),
                             createRequestHeaders_index cfg)],
        console := console w @
          [Info (''Making request to: ''
                   @ buildURL (baseURL cfg) endpoint (buildQueryParams (queryParams cfg)))]\<rparr>)"
  by (simp add: makeRequest_start_def Let_def fetch_def consoleLog_def)

lemma makeRequest_resume_eq:
  "makeRequest_resume endpoint result w =
     (Fulfilled (),
      w\<lparr>console := console w @
          [case result of
             Inr response \<Rightarrow>
               Info (r_url response @ '' - '' @ showNat (r_status response) @ '' ''
                       @ r_statusText response)
           | Inl message \<Rightarrow>
               Err (''Error making request to '' @ endpoint @ '': '' @ message)]\<rparr>)"
  by (simp add: makeRequest_resume_def consoleLog_def consoleError_def split: sum.splits)

lemma requests_eq:
  "requests net cfg i es w =
     (map (\<lambda>(j, e). \<lparr>position = i + j, target = e,
                      settlement = net (length (calls w) + j)
                        (buildURL (baseURL cfg) e (buildQueryParams (queryParams cfg)))
                        (createRequestHeaders_index cfg)\<rparr>)
          (enumerate 0 es),
      w\<lparr>calls := calls w @
          map (\<lambda>e. (buildURL (baseURL cfg) e (buildQueryParams (queryParams cfg)),
                    createRequestHeaders_index cfg)) es,
        console := console w @
          map (\<lambda>e. Info (''Making request to: ''
                     @ buildURL (baseURL cfg) e (buildQueryParams (queryParams cfg)))) es\<rparr>)"
proof (induction es arbitrary: i w)
  case Nil
  then show ?case by simp
next
  case (Cons e es)
  show ?case
    by (simp add: makeRequest_start_eq Cons.IH enumerate_Suc_eq [of 0] case_prod_beta comp_def)
qed

lemma settle_eq:
  "settle qs results w =
     (fold (\<lambda>p r. r[position p := Some (Fulfilled ())]) qs results,
      w\<lparr>console := console w @
          map (\<lambda>p. case settlement p of
                      Inr response \<Rightarrow>
                        Info (r_url response @ '' - '' @ showNat (r_status response) @ '' ''
                                @ r_statusText response)
                    | Inl message \<Rightarrow>
                        Err (''Error making request to '' @ target p @ '': '' @ message)) qs\<rparr>)"
  by (induction qs arbitrary: results w) (simp_all add: makeRequest_resume_eq)

lemma settleOrder_mset: "mset (settleOrder picks xs) = mset xs"
proof (induction picks xs rule: settleOrder.induct)
  case (1 picks)
  then show ?case by simp
next
  case (2 x xs)
  then show ?case by simp
next
  case (3 c picks x xs)
  let ?ys = "x # xs"
  let ?i = "c mod length ?ys"
  have i: "?i < length ?ys" by simp
  have "mset (settleOrder (c # picks) ?ys)
          = add_mset (?ys ! ?i) (mset (take ?i ?ys @ drop (Suc ?i) ?ys))"
    using "3.IH" [of ?i] by (simp add: Let_def)
  also have "\<dots> = mset (take ?i ?ys @ ?ys ! ?i # drop (Suc ?i) ?ys)"
    by simp
  also have "\<dots> = mset ?ys"
    using id_take_nth_drop [OF i] by simp
  finally show ?case .
qed

lemma fold_store_length:
  "length (fold (\<lambda>p r. r[position p := Some (Fulfilled ())]) qs results) = length results"
  by (induction qs arbitrary: results) simp_all

lemma fold_store_nth:
  "i < length results \<Longrightarrow>
   fold (\<lambda>p r. r[position p := Some (Fulfilled ())]) qs results ! i =
     (if i \<in> position ` set qs then Some (Fulfilled ()) else results ! i)"
proof (induction qs arbitrary: results)
  case Nil
  then show ?case by simp
next
  case (Cons q qs)
  then show ?case
    by (cases "position q = i") (auto simp: nth_list_update)
qed

lemma fold_store_all:
  assumes "length results = n" and "\<forall>i < n. i \<in> position ` set qs"
  shows "fold (\<lambda>p r. r[position p := Some (Fulfilled ())]) qs results
           = replicate n (Some (Fulfilled ()))"
proof (rule nth_equalityI)
  show "length (fold (\<lambda>p r. r[position p := Some (Fulfilled ())]) qs results)
          = length (replicate n (Some (Fulfilled ())))"
    using assms(1) by (simp add: fold_store_length)
next
  fix i
  assume "i < length (fold (\<lambda>p r. r[position p := Some (Fulfilled ())]) qs results)"
  then have i: "i < n" using assms(1) by (simp add: fold_store_length)
  then show "fold (\<lambda>p r. r[position p := Some (Fulfilled ())]) qs results ! i
               = replicate n (Some (Fulfilled ())) ! i"
    using assms by (simp add: fold_store_nth)
qed

text \<open>
  The picks reach every order: whatever order the pending calls settle in, some list of
  picks gives it.
\<close>

lemma settleOrder_complete:
  "mset ys = mset xs \<Longrightarrow> \<exists>picks. settleOrder picks xs = ys"
proof (induction ys arbitrary: xs)
  case Nil
  then have "xs = []" by simp
  then show ?case by simp
next
  case (Cons y ys)
  then have "y \<in> set xs" by (metis list.set_intros(1) set_mset_mset)
  then obtain i where i: "i < length xs" "xs ! i = y"
    by (auto simp: in_set_conv_nth)
  let ?rest = "take i xs @ drop (Suc i) xs"
  have "mset xs = add_mset y (mset ?rest)"
    using id_take_nth_drop [OF i(1)] i(2)
    by (metis add_mset_add_single mset.simps(2) mset_append union_mset_add_mset_right
        append_Cons append_Nil)
  with Cons.prems have "mset ys = mset ?rest" by simp
  from Cons.IH [OF this] obtain picks where p: "settleOrder picks ?rest = ys" by blast
  have ne: "xs \<noteq> []" using i(1) by auto
  then obtain x xs' where xs: "xs = x # xs'" by (cases xs) auto
  have "settleOrder (i # picks) xs = ys' " if "ys' = y # ys" for ys'
    using that p i unfolding xs by (simp add: Let_def)
  then show ?case by blast
qed

lemma enumerate_positions:
  "position ` set (map (\<lambda>(j, e). \<lparr>position = j, target = e, settlement = f j e\<rparr>) (enumerate 0 es))
     = {0..<length es}"
proof -
  have "position \<circ> (\<lambda>(j, e). \<lparr>position = j, target = e, settlement = f j e\<rparr>) = fst"
    by (rule ext) (simp add: case_prod_beta)
  then have "map position (map (\<lambda>(j, e). \<lparr>position = j, target = e, settlement = f j e\<rparr>) (enumerate 0 es))
          = map fst (enumerate 0 es)"
    by (simp only: map_map)
  then have "set (map position (map (\<lambda>(j, e). \<lparr>position = j, target = e, settlement = f j e\<rparr>)
                                    (enumerate 0 es)))
               = {0..<length es}"
    by simp
  then show ?thesis by (simp only: set_map)
qed

text \<open>
  C4. In \<^verbatim>\<open>index.js\<close>, the promise of \<^verbatim>\<open>makeRequest\<close> is always fulfilled, whatever the
  transport does. A cycle over a non-empty endpoint array first starts every call, in
  the order of the array: the console holds one request line per endpoint and one
  request per endpoint has been handed to the transport, each to the URL built for that
  endpoint, before any call settles. Then, in whatever order the calls settle, every
  call writes its own outcome line (the response, or the error of that request and no
  other), exactly once. The result array has one entry per endpoint, all settled and
  fulfilled, and the completion line follows the last outcome line.
\<close>

theorem cycle_isolates_failures:
  "fst (makeRequest net cfg endpoint w) = Fulfilled () \<and>
   (endpoints cfg \<noteq> [] \<longrightarrow>
      (let n = length (endpoints cfg);
           hdrs = createRequestHeaders_index cfg;
           address = (\<lambda>e. buildURL (baseURL cfg) e (buildQueryParams (queryParams cfg)));
           pendings = map (\<lambda>(j, e). \<lparr>position = j, target = e,
                                       settlement = net (length (calls w) + j) (address e) hdrs\<rparr>)
                          (enumerate 0 (endpoints cfg));
           settled = settleOrder picks pendings
       in fst (cronCallback picks net cfg w) = replicate n (Some (Fulfilled ())) \<and>
          length (fst (cronCallback picks net cfg w)) = n \<and>
          calls (snd (cronCallback picks net cfg w)) =
            calls w @ map (\<lambda>e. (address e, hdrs)) (endpoints cfg) \<and>
          mset settled = mset pendings \<and>
          console (snd (cronCallback picks net cfg w)) =
            console w @
            [Info (''Starting cron job - calling '' @ showNat n @ '' endpoint(s)'')] @
            (if queryParams cfg \<noteq> []
             then [Info (''Using '' @ showNat (length (queryParams cfg))
                           @ '' query parameter(s)'')]
             else []) @
            map (\<lambda>e. Info (''Making request to: '' @ address e)) (endpoints cfg) @
            map (\<lambda>p. case settlement p of
                        Inr response \<Rightarrow>
                          Info (r_url response @ '' - '' @ showNat (r_status response) @ '' ''
                                  @ r_statusText response)
                      | Inl message \<Rightarrow>
                          Err (''Error making request to '' @ target p @ '': '' @ message))
                settled @
            [Info (''Cron job completed - called '' @ showNat n @ '' endpoint(s)'')]))"
proof -
  let ?hdrs = "createRequestHeaders_index cfg"
  let ?address = "\<lambda>e. buildURL (baseURL cfg) e (buildQueryParams (queryParams cfg))"
  let ?pendings = "map (\<lambda>(j, e). \<lparr>position = j, target = e,
                                   settlement = net (length (calls w) + j) (?address e) ?hdrs\<rparr>)
                       (enumerate 0 (endpoints cfg))"
  let ?settled = "settleOrder picks ?pendings"
  have single: "fst (makeRequest net cfg endpoint w) = Fulfilled ()"
    by (simp add: makeRequest_def makeRequest_start_eq makeRequest_resume_eq)
  have perm: "mset ?settled = mset ?pendings"
    by (rule settleOrder_mset)
  have len: "length ?pendings = length (endpoints cfg)" by simp
  have "set ?settled = set ?pendings"
    using perm by (rule mset_eq_setD)
  then have "position ` set ?settled = position ` set ?pendings"
    by (rule arg_cong)
  also have "\<dots> = {0..<length (endpoints cfg)}"
    by (rule enumerate_positions)
  finally have all: "\<forall>i < length (endpoints cfg). i \<in> position ` set ?settled" by simp
  have batch: "fold (\<lambda>p r. r[position p := Some (Fulfilled ())]) ?settled
                 (replicate (length (endpoints cfg)) None)
               = replicate (length (endpoints cfg)) (Some (Fulfilled ()))"
    by (rule fold_store_all [OF _ all]) simp
  have cycle:
    "cronCallback picks net cfg w =
       (let w1 = consoleLog (''Starting cron job - calling ''
                                @ showNat (length (endpoints cfg)) @ '' endpoint(s)'') w;
            w2 = (if queryParams cfg \<noteq> []
                  then consoleLog (''Using '' @ showNat (length (queryParams cfg))
                                     @ '' query parameter(s)'') w1
                  else w1);
            started = requests net cfg 0 (endpoints cfg) w2;
            res = allSettled picks (fst started) (snd started)
        in (fst res,
            consoleLog (''Cron job completed - called ''
                          @ showNat (length (endpoints cfg)) @ '' endpoint(s)'') (snd res)))"
    if "endpoints cfg \<noteq> []"
    using that by (simp add: cronCallback_def getAllEndpoints_def Let_def case_prod_beta)
  show ?thesis
  proof (cases "endpoints cfg = []")
    case True
    then show ?thesis using single by simp
  next
    case False
    let ?w2 = "(if queryParams cfg \<noteq> []
                  then consoleLog (''Using '' @ showNat (length (queryParams cfg))
                                     @ '' query parameter(s)'')
                         (consoleLog (''Starting cron job - calling ''
                                @ showNat (length (endpoints cfg)) @ '' endpoint(s)'') w)
                  else consoleLog (''Starting cron job - calling ''
                                @ showNat (length (endpoints cfg)) @ '' endpoint(s)'') w)"
    have w2: "calls ?w2 = calls w"
      "console ?w2 = console w @
            [Info (''Starting cron job - calling '' @ showNat (length (endpoints cfg))
                     @ '' endpoint(s)'')] @
            (if queryParams cfg \<noteq> []
             then [Info (''Using '' @ showNat (length (queryParams cfg))
                           @ '' query parameter(s)'')]
             else [])"
      by (simp_all add: consoleLog_def)
    have started: "fst (requests net cfg 0 (endpoints cfg) ?w2) = ?pendings"
      by (simp only: requests_eq fst_conv w2 add_0)
    have res: "fst (cronCallback picks net cfg w)
                 = replicate (length (endpoints cfg)) (Some (Fulfilled ()))"
      unfolding cycle [OF False] Let_def fst_conv started allSettled_def settle_eq len
      by (rule batch)
    have after: "snd (cronCallback picks net cfg w) =
        consoleLog (''Cron job completed - called ''
                          @ showNat (length (endpoints cfg)) @ '' endpoint(s)'')
          (snd (settle ?settled (replicate (length (endpoints cfg)) None)
                  (snd (requests net cfg 0 (endpoints cfg) ?w2))))"
      unfolding cycle [OF False] Let_def snd_conv started allSettled_def len ..
    have cs: "calls (snd (cronCallback picks net cfg w)) =
            calls w @ map (\<lambda>e. (?address e, ?hdrs)) (endpoints cfg)"
      unfolding after by (simp add: consoleLog_def settle_eq requests_eq w2(1))
    have co: "console (snd (cronCallback picks net cfg w)) =
            console w @
            [Info (''Starting cron job - calling '' @ showNat (length (endpoints cfg))
                     @ '' endpoint(s)'')] @
            (if queryParams cfg \<noteq> []
             then [Info (''Using '' @ showNat (length (queryParams cfg))
                           @ '' query parameter(s)'')]
             else []) @
            map (\<lambda>e. Info (''Making request to: '' @ ?address e)) (endpoints cfg) @
            map (\<lambda>p. case settlement p of
                        Inr response \<Rightarrow>
                          Info (r_url response @ '' - '' @ showNat (r_status response) @ '' ''
                                  @ r_statusText response)
                      | Inl message \<Rightarrow>
                          Err (''Error making request to '' @ target p @ '': '' @ message))
                ?settled @
            [Info (''Cron job completed - called '' @ showNat (length (endpoints cfg))
                     @ '' endpoint(s)'')]"
      unfolding after by (simp add: consoleLog_def settle_eq requests_eq w2(2) del: append_assoc)
    show ?thesis
      unfolding Let_def using single res cs co perm by simp
  qed
qed

lemma settleOrder_example: "settleOrder [2, 0] [a, b, c] = [c, a, b]"
proof -
  have "settleOrder [2, 0] [a, b, c] = c # settleOrder [0] [a, b]"
    by (simp add: Let_def)
  also have "settleOrder [0] [a, b] = a # settleOrder [] [b]"
    by (simp add: Let_def)
  finally show ?thesis by simp
qed

lemma enumerate_three: "enumerate 0 [a, b, c] = [(0, a), (1, b), (2, c)]"
  by (simp add: enumerate_eq_zip upt_rec)

theorem cycle_isolates_failures_witness:
  "endpoints exampleIndex \<noteq> [] \<and>
   fst (cronCallback [2, 0] netSecondFails exampleIndex initialWorld)
     = [Some (Fulfilled ()), Some (Fulfilled ()), Some (Fulfilled ())] \<and>
   map fst (calls (snd (cronCallback [2, 0] netSecondFails exampleIndex initialWorld)))
     = [''https://h/a?x=5'', ''https://h/b?x=5'', ''https://h/c?x=5''] \<and>
   console (snd (cronCallback [2, 0] netSecondFails exampleIndex initialWorld))
     = [Info ''Starting cron job - calling 3 endpoint(s)'',
        Info ''Using 1 query parameter(s)'',
        Info ''Making request to: https://h/a?x=5'',
        Info ''Making request to: https://h/b?x=5'',
        Info ''Making request to: https://h/c?x=5'',
        Info ''https://h/c?x=5 - 200 OK'',
        Info ''https://h/a?x=5 - 200 OK'',
        Err ''Error making request to b: fetch failed'',
        Info ''Cron job completed - called 3 endpoint(s)'']"
proof -
  have ne: "endpoints exampleIndex \<noteq> []" by (simp add: exampleIndex_def)
  note inst = cycle_isolates_failures [of netSecondFails exampleIndex "''a''" initialWorld "[2, 0]",
      THEN conjunct2, rule_format, OF ne, unfolded Let_def]
  have q: "buildQueryParams (queryParams exampleIndex) = ''x=5''"
    by (simp add: exampleIndex_def buildQueryParams_def showInt_def hexDigit_def
        encodeURIComponent_def encodeChar_def unreserved_def)
  have e: "endpoints exampleIndex = [''a'', ''b'', ''c'']" "baseURL exampleIndex = ''https://h''"
    "queryParams exampleIndex \<noteq> []" "length (queryParams exampleIndex) = 1"
    by (simp_all add: exampleIndex_def)
  have b: "fst (cronCallback [2, 0] netSecondFails exampleIndex initialWorld)
             = [Some (Fulfilled ()), Some (Fulfilled ()), Some (Fulfilled ())]"
    using inst [THEN conjunct1] by (simp add: e numeral_3_eq_3)
  have c: "map fst (calls (snd (cronCallback [2, 0] netSecondFails exampleIndex initialWorld)))
             = [''https://h/a?x=5'', ''https://h/b?x=5'', ''https://h/c?x=5'']"
    using inst [THEN conjunct2, THEN conjunct2, THEN conjunct1]
    by (simp add: q e buildURL_def initialWorld_def)
  have l: "console (snd (cronCallback [2, 0] netSecondFails exampleIndex initialWorld)) =
      [Info ''Starting cron job - calling 3 endpoint(s)'',
       Info ''Using 1 query parameter(s)'',
       Info ''Making request to: https://h/a?x=5'',
       Info ''Making request to: https://h/b?x=5'',
       Info ''Making request to: https://h/c?x=5'',
       Info ''https://h/c?x=5 - 200 OK'',
       Info ''https://h/a?x=5 - 200 OK'',
       Err ''Error making request to b: fetch failed'',
       Info ''Cron job completed - called 3 endpoint(s)'']"
    by (subst inst [THEN conjunct2, THEN conjunct2, THEN conjunct2, THEN conjunct2])
       (simp add: q e enumerate_three settleOrder_example buildURL_def initialWorld_def
          netSecondFails_def hexDigit_def del: enumerate_simps settleOrder.simps)
  show ?thesis using ne b c l by simp
qed

section \<open>Properties of the control surface\<close>

text \<open>
  C3. For a request routed to \<^verbatim>\<open>POST /trigger\<close> or \<^verbatim>\<open>GET /status\<close>: when the
  Authorization header is absent or empty, the answer is 401 with a JSON body holding
  an \<open>error\<close> field; when the header is non-empty and its token, after an optional
  \<^verbatim>\<open>Bearer \<close> prefix is removed, differs from the server's secret, the answer is 403 with a
  JSON \<open>error\<close> body; in both cases the world is unchanged, so neither the dispatcher
  nor the status handler has run. When the token equals the secret, the answer is the
  route handler's.
\<close>

theorem protected_routes_authenticate:
  assumes route: "(method req = ''POST'' \<and> path req = ''/trigger'') \<or>
                  (method req = ''GET'' \<and> path req = ''/status'')"
  shows
    "(\<not> truthy (authorization req) \<longrightarrow>
        app rnd net cfg now req w =
          (Some \<lparr>statusCode = 401,
                 body = JObject [(''error'', JString ''Authorization header required'')]\<rparr>, w)) \<and>
     (\<forall>h. authorization req = Some h \<and> h \<noteq> [] \<and>
           (if take 7 h = ''Bearer '' then drop 7 h else h) \<noteq> serverAuthToken cfg \<longrightarrow>
        app rnd net cfg now req w =
          (Some \<lparr>statusCode = 403, body = JObject [(''error'', JString ''Invalid token'')]\<rparr>, w)) \<and>
     (\<forall>h. authorization req = Some h \<and> h \<noteq> [] \<and>
           (if take 7 h = ''Bearer '' then drop 7 h else h) = serverAuthToken cfg \<longrightarrow>
        app rnd net cfg now req w =
          (if path req = ''/trigger''
           then (Some (fst (triggerHandler rnd net cfg now w)),
                 snd (triggerHandler rnd net cfg now w))
           else (Some (statusHandler cfg now), w)))"
proof -
  have missing:
    "authenticateRequest cfg req =
       Respond \<lparr>statusCode = 401,
                body = JObject [(''error'', JString ''Authorization header required'')]\<rparr>"
    if "\<not> truthy (authorization req)"
    using that by (simp add: authenticateRequest_def truthy_def split: option.splits)
  have wrong:
    "authenticateRequest cfg req =
       Respond \<lparr>statusCode = 403, body = JObject [(''error'', JString ''Invalid token'')]\<rparr>"
    if "authorization req = Some h" "h \<noteq> []"
       "(if take 7 h = ''Bearer '' then drop 7 h else h) \<noteq> serverAuthToken cfg" for h
    using that by (simp add: authenticateRequest_def Let_def)
  have right: "authenticateRequest cfg req = Next"
    if "authorization req = Some h" "h \<noteq> []"
       "(if take 7 h = ''Bearer '' then drop 7 h else h) = serverAuthToken cfg" for h
    using that by (simp add: authenticateRequest_def Let_def)
  have routed:
    "app rnd net cfg now req w =
       (case authenticateRequest cfg req of
          Respond res \<Rightarrow> (Some res, w)
        | Next \<Rightarrow>
            (if path req = ''/trigger''
             then (Some (fst (triggerHandler rnd net cfg now w)),
                   snd (triggerHandler rnd net cfg now w))
             else (Some (statusHandler cfg now), w)))"
    using route by (auto simp: app_def case_prod_beta split: middleware.splits)
  show ?thesis
    using missing wrong right by (simp add: routed)
qed

theorem protected_routes_authenticate_witness:
  "app rndHalf netOK exampleServer ''t'' (triggerRequest None) initialWorld =
     (Some \<lparr>statusCode = 401,
            body = JObject [(''error'', JString ''Authorization header required'')]\<rparr>,
      initialWorld) \<and>
   app rndHalf netOK exampleServer ''t'' (triggerRequest (Some ''Bearer wrong'')) initialWorld =
     (Some \<lparr>statusCode = 403, body = JObject [(''error'', JString ''Invalid token'')]\<rparr>,
      initialWorld) \<and>
   app rndHalf netOK exampleServer ''t'' (statusRequest (Some ''Bearer s3cret'')) initialWorld =
     (Some (statusHandler exampleServer ''t''), initialWorld) \<and>
   app rndHalf netOK exampleServer ''t'' (triggerRequest (Some ''s3cret'')) initialWorld =
     (Some (fst (triggerHandler rndHalf netOK exampleServer ''t'' initialWorld)),
      snd (triggerHandler rndHalf netOK exampleServer ''t'' initialWorld))"
proof -
  have a: "app rndHalf netOK exampleServer ''t'' (triggerRequest None) initialWorld =
     (Some \<lparr>statusCode = 401,
            body = JObject [(''error'', JString ''Authorization header required'')]\<rparr>,
      initialWorld)"
    using protected_routes_authenticate
      [of "triggerRequest None" rndHalf netOK exampleServer "''t''" initialWorld]
    by (simp add: triggerRequest_def truthy_def)
  have b: "app rndHalf netOK exampleServer ''t'' (triggerRequest (Some ''Bearer wrong''))
             initialWorld =
     (Some \<lparr>statusCode = 403, body = JObject [(''error'', JString ''Invalid token'')]\<rparr>,
      initialWorld)"
    using protected_routes_authenticate
      [of "triggerRequest (Some ''Bearer wrong'')" rndHalf netOK exampleServer "''t''" initialWorld]
    by (simp add: triggerRequest_def exampleServer_def)
  have c: "app rndHalf netOK exampleServer ''t'' (statusRequest (Some ''Bearer s3cret''))
             initialWorld =
     (Some (statusHandler exampleServer ''t''), initialWorld)"
    using protected_routes_authenticate
      [of "statusRequest (Some ''Bearer s3cret'')" rndHalf netOK exampleServer "''t''" initialWorld]
    by (simp add: statusRequest_def exampleServer_def)
  have d: "app rndHalf netOK exampleServer ''t'' (triggerRequest (Some ''s3cret'')) initialWorld =
     (Some (fst (triggerHandler rndHalf netOK exampleServer ''t'' initialWorld)),
      snd (triggerHandler rndHalf netOK exampleServer ''t'' initialWorld))"
    using protected_routes_authenticate
      [of "triggerRequest (Some ''s3cret'')" rndHalf netOK exampleServer "''t''" initialWorld]
    by (simp add: triggerRequest_def exampleServer_def)
  show ?thesis using a b c d by simp
qed

text \<open>
  An Authorization header that is present and empty carries the token \<^verbatim>\<open>''\<close>, which
  differs from the secret; the answer is 401, not 403.
\<close>

theorem empty_header_is_401:
  "authorization (triggerRequest (Some [])) = Some [] \<and>
   (if take 7 [] = ''Bearer '' then drop 7 [] else []) \<noteq> serverAuthToken exampleServer \<and>
   app rndHalf netOK exampleServer ''t'' (triggerRequest (Some [])) initialWorld =
     (Some \<lparr>statusCode = 401,
            body = JObject [(''error'', JString ''Authorization header required'')]\<rparr>,
      initialWorld)"
  by (simp add: triggerRequest_def exampleServer_def app_def authenticateRequest_def)

lemma createRequestHeaders_names:
  "map fst (createRequestHeaders cfg) =
     [''Content-Type'', ''User-Agent''] @
     (if truthy (clientAuthToken cfg) then [''Authorization''] else [])"
  by (simp add: createRequestHeaders_def truthy_def split: option.splits)

text \<open>
  C8. For an authenticated \<^verbatim>\<open>GET /status\<close> request, the answer is 200 with the schedule
  expression, the base URL, the length of the endpoint array, the length of the
  query-parameter array, whether an outbound credential is configured (that is, whether
  outgoing requests carry an Authorization header) and the timestamp. The world is
  unchanged: no draw, no request, no console line.
\<close>

theorem status_reports_configuration:
  assumes "method req = ''GET''" and "path req = ''/status''"
    and "authenticateRequest cfg req = Next"
  shows "app rnd net cfg now req w =
           (Some \<lparr>statusCode = 200,
                  body = JObject [(''cronTimer'', JString (cronTimer cfg)),
                                  (''baseURL'', JString (baseURL cfg)),
                                  (''endpointsCount'', JNumber (int (length (endpoints cfg)))),
                                  (''queryParamsCount'', JNumber (int (length (queryParams cfg)))),
                                  (''hasClientAuth'', JBool (truthy (clientAuthToken cfg))),
                                  (''timestamp'', JString now)]\<rparr>, w) \<and>
         (truthy (clientAuthToken cfg) \<longleftrightarrow>
            ''Authorization'' \<in> set (map fst (createRequestHeaders cfg)))"
proof -
  have "app rnd net cfg now req w = (Some (statusHandler cfg now), w)"
    using assms by (simp add: app_def)
  moreover have "truthy (clientAuthToken cfg) \<longleftrightarrow>
            ''Authorization'' \<in> set (map fst (createRequestHeaders cfg))"
    by (simp add: createRequestHeaders_names)
  ultimately show ?thesis by (simp add: statusHandler_def)
qed

theorem status_reports_configuration_witness:
  "method (statusRequest (Some ''s3cret'')) = ''GET'' \<and>
   path (statusRequest (Some ''s3cret'')) = ''/status'' \<and>
   authenticateRequest exampleServer (statusRequest (Some ''s3cret'')) = Next \<and>
   app rndHalf netDown exampleServer ''t'' (statusRequest (Some ''s3cret'')) initialWorld =
     (Some \<lparr>statusCode = 200,
            body = JObject [(''cronTimer'', JString ''* * * * *''),
                            (''baseURL'', JString ''https://h''),
                            (''endpointsCount'', JNumber 3),
                            (''queryParamsCount'', JNumber 1),
                            (''hasClientAuth'', JBool True),
                            (''timestamp'', JString ''t'')]\<rparr>, initialWorld)"
proof -
  have m: "method (statusRequest (Some ''s3cret'')) = ''GET''"
    and p: "path (statusRequest (Some ''s3cret'')) = ''/status''"
    by (simp_all add: statusRequest_def)
  have a: "authenticateRequest exampleServer (statusRequest (Some ''s3cret'')) = Next"
    by (simp add: authenticateRequest_def statusRequest_def exampleServer_def)
  show ?thesis
    using status_reports_configuration [OF m p a, of rndHalf netDown "''t''" initialWorld] m p a
    by (simp add: exampleServer_def truthy_def)
qed

section \<open>Properties of startup\<close>

lemma parseOrEmpty_default:
  "\<not> truthy v \<Longrightarrow> parseOrEmpty parse v = Inr []"
  by (simp add: parseOrEmpty_def truthy_def split: option.splits)

lemma startup_index_missing:
  "\<not> truthy (env ''CRON_TIMER'') \<or> \<not> truthy (env ''BASE_URL'') \<Longrightarrow>
   startup_index pe pq env
     = Exit 1 ''Missing required environment variables: CRON_TIMER and BASE_URL''"
  by (auto simp: startup_index_def truthy_def split: option.splits)

lemma startup_server_missing:
  "\<not> truthy (env ''CRON_TIMER'') \<or> \<not> truthy (env ''BASE_URL'') \<or>
   \<not> truthy (env ''SERVER_AUTH_TOKEN'') \<Longrightarrow>
   startup_server pe pr env = Exit 1 ''Missing required environment variables''"
  by (auto simp: startup_server_def truthy_def split: option.splits)

lemma startup_index_present:
  assumes "env ''CRON_TIMER'' = Some t" "t \<noteq> []" "env ''BASE_URL'' = Some b" "b \<noteq> []"
  shows "startup_index pe pq env =
     (case parseOrEmpty pe (env ''ENDPOINTS'') of
        Inl message \<Rightarrow> Exit 1 (''Error parsing JSON from environment variables: '' @ message)
      | Inr es \<Rightarrow>
          (case parseOrEmpty pq (env ''QUERY_PARAMS'') of
             Inl message \<Rightarrow>
               Exit 1 (''Error parsing JSON from environment variables: '' @ message)
           | Inr qs \<Rightarrow>
               Running \<lparr>cronTimer = t, baseURL = b, endpoints = es, queryParams = qs,
                        cronSecret = env ''CRON_SECRET''\<rparr>))"
  using assms by (simp add: startup_index_def)

lemma startup_server_present:
  assumes "env ''CRON_TIMER'' = Some t" "t \<noteq> []" "env ''BASE_URL'' = Some b" "b \<noteq> []"
    "env ''SERVER_AUTH_TOKEN'' = Some a" "a \<noteq> []"
  shows "startup_server pe pr env =
     (case parseOrEmpty pe (env ''ENDPOINTS'') of
        Inl message \<Rightarrow> Exit 1 (''Error parsing JSON from environment variables: '' @ message)
      | Inr es \<Rightarrow>
          (case parseOrEmpty pr (env ''QUERY_PARAMS'') of
             Inl message \<Rightarrow>
               Exit 1 (''Error parsing JSON from environment variables: '' @ message)
           | Inr qs \<Rightarrow>
               Running \<lparr>cronTimer = t, baseURL = b, endpoints = es, queryParams = qs,
                        serverAuthToken = a, clientAuthToken = env ''CLIENT_AUTH_TOKEN''\<rparr>))"
  using assms by (simp add: startup_server_def)

lemma truthy_Some: "truthy v \<Longrightarrow> \<exists>s. v = Some s \<and> s \<noteq> []"
  by (cases v) (simp_all add: truthy_def)

text \<open>
  C5. \<^verbatim>\<open>index.js\<close> exits with status 1 when the schedule expression or the
  base URL is missing or empty, or when the endpoint or the query-parameter JSON is
  malformed; otherwise it runs, with the endpoint and query-parameter arrays empty when
  their variables are unset and the outbound secret as the environment has it, possibly
  absent. The server does the same, and it moreover exits with status 1 when the inbound
  secret \<^verbatim>\<open>SERVER_AUTH_TOKEN\<close> is missing or empty; its outbound token is optional.
\<close>

theorem startup_validation:
  "(\<not> truthy (env ''CRON_TIMER'') \<or> \<not> truthy (env ''BASE_URL'') \<or>
    (\<exists>m. parseOrEmpty pe (env ''ENDPOINTS'') = Inl m) \<or>
    (\<exists>m. parseOrEmpty pq (env ''QUERY_PARAMS'') = Inl m)
      \<longrightarrow> (\<exists>msg. startup_index pe pq env = Exit 1 msg)) \<and>
   (\<forall>t b es qs.
      env ''CRON_TIMER'' = Some t \<and> t \<noteq> [] \<and> env ''BASE_URL'' = Some b \<and> b \<noteq> [] \<and>
      parseOrEmpty pe (env ''ENDPOINTS'') = Inr es \<and>
      parseOrEmpty pq (env ''QUERY_PARAMS'') = Inr qs
      \<longrightarrow> startup_index pe pq env =
            Running \<lparr>cronTimer = t, baseURL = b, endpoints = es, queryParams = qs,
                     cronSecret = env ''CRON_SECRET''\<rparr>) \<and>
   (\<not> truthy (env ''CRON_TIMER'') \<or> \<not> truthy (env ''BASE_URL'') \<or>
    \<not> truthy (env ''SERVER_AUTH_TOKEN'') \<or>
    (\<exists>m. parseOrEmpty pe (env ''ENDPOINTS'') = Inl m) \<or>
    (\<exists>m. parseOrEmpty pr (env ''QUERY_PARAMS'') = Inl m)
      \<longrightarrow> (\<exists>msg. startup_server pe pr env = Exit 1 msg)) \<and>
   (\<forall>t b a es qs.
      env ''CRON_TIMER'' = Some t \<and> t \<noteq> [] \<and> env ''BASE_URL'' = Some b \<and> b \<noteq> [] \<and>
      env ''SERVER_AUTH_TOKEN'' = Some a \<and> a \<noteq> [] \<and>
      parseOrEmpty pe (env ''ENDPOINTS'') = Inr es \<and>
      parseOrEmpty pr (env ''QUERY_PARAMS'') = Inr qs
      \<longrightarrow> startup_server pe pr env =
            Running \<lparr>cronTimer = t, baseURL = b, endpoints = es, queryParams = qs,
                     serverAuthToken = a, clientAuthToken = env ''CLIENT_AUTH_TOKEN''\<rparr>) \<and>
   (\<not> truthy (env ''ENDPOINTS'') \<longrightarrow> parseOrEmpty pe (env ''ENDPOINTS'') = Inr []) \<and>
   (\<not> truthy (env ''QUERY_PARAMS'') \<longrightarrow>
      parseOrEmpty pq (env ''QUERY_PARAMS'') = Inr [] \<and>
      parseOrEmpty pr (env ''QUERY_PARAMS'') = Inr [])"
proof -
  have index_exit:
    "\<not> truthy (env ''CRON_TIMER'') \<or> \<not> truthy (env ''BASE_URL'') \<or>
     (\<exists>m. parseOrEmpty pe (env ''ENDPOINTS'') = Inl m) \<or>
     (\<exists>m. parseOrEmpty pq (env ''QUERY_PARAMS'') = Inl m)
       \<longrightarrow> (\<exists>msg. startup_index pe pq env = Exit 1 msg)"
  proof (cases "truthy (env ''CRON_TIMER'') \<and> truthy (env ''BASE_URL'')")
    case False
    then show ?thesis using startup_index_missing [of env pe pq] by blast
  next
    case True
    from True obtain t where t: "env ''CRON_TIMER'' = Some t" "t \<noteq> []"
      using truthy_Some [of "env ''CRON_TIMER''"] by blast
    from True obtain b where b: "env ''BASE_URL'' = Some b" "b \<noteq> []"
      using truthy_Some [of "env ''BASE_URL''"] by blast
    note tb = t b
    have "\<exists>msg. startup_index pe pq env = Exit 1 msg"
      if "parseOrEmpty pe (env ''ENDPOINTS'') = Inl m" for m
      using that by (simp add: startup_index_present [OF tb])
    moreover have "\<exists>msg. startup_index pe pq env = Exit 1 msg"
      if "parseOrEmpty pq (env ''QUERY_PARAMS'') = Inl m" for m
      using that
      by (cases "parseOrEmpty pe (env ''ENDPOINTS'')") (simp_all add: startup_index_present [OF tb])
    ultimately show ?thesis using True by blast
  qed
  have server_exit:
    "\<not> truthy (env ''CRON_TIMER'') \<or> \<not> truthy (env ''BASE_URL'') \<or>
     \<not> truthy (env ''SERVER_AUTH_TOKEN'') \<or>
     (\<exists>m. parseOrEmpty pe (env ''ENDPOINTS'') = Inl m) \<or>
     (\<exists>m. parseOrEmpty pr (env ''QUERY_PARAMS'') = Inl m)
       \<longrightarrow> (\<exists>msg. startup_server pe pr env = Exit 1 msg)"
  proof (cases "truthy (env ''CRON_TIMER'') \<and> truthy (env ''BASE_URL'') \<and>
                truthy (env ''SERVER_AUTH_TOKEN'')")
    case False
    then show ?thesis using startup_server_missing [of env pe pr] by blast
  next
    case True
    from True obtain t where t: "env ''CRON_TIMER'' = Some t" "t \<noteq> []"
      using truthy_Some [of "env ''CRON_TIMER''"] by blast
    from True obtain b where b: "env ''BASE_URL'' = Some b" "b \<noteq> []"
      using truthy_Some [of "env ''BASE_URL''"] by blast
    from True obtain a where a: "env ''SERVER_AUTH_TOKEN'' = Some a" "a \<noteq> []"
      using truthy_Some [of "env ''SERVER_AUTH_TOKEN''"] by blast
    note tba = t b a
    have "\<exists>msg. startup_server pe pr env = Exit 1 msg"
      if "parseOrEmpty pe (env ''ENDPOINTS'') = Inl m" for m
      using that by (simp add: startup_server_present [OF tba])
    moreover have "\<exists>msg. startup_server pe pr env = Exit 1 msg"
      if "parseOrEmpty pr (env ''QUERY_PARAMS'') = Inl m" for m
      using that
      by (cases "parseOrEmpty pe (env ''ENDPOINTS'')") (simp_all add: startup_server_present [OF tba])
    ultimately show ?thesis using True by blast
  qed
  have index_run:
    "\<forall>t b es qs.
      env ''CRON_TIMER'' = Some t \<and> t \<noteq> [] \<and> env ''BASE_URL'' = Some b \<and> b \<noteq> [] \<and>
      parseOrEmpty pe (env ''ENDPOINTS'') = Inr es \<and>
      parseOrEmpty pq (env ''QUERY_PARAMS'') = Inr qs
      \<longrightarrow> startup_index pe pq env =
            Running \<lparr>cronTimer = t, baseURL = b, endpoints = es, queryParams = qs,
                     cronSecret = env ''CRON_SECRET''\<rparr>"
    by (simp add: startup_index_def)
  have server_run:
    "\<forall>t b a es qs.
      env ''CRON_TIMER'' = Some t \<and> t \<noteq> [] \<and> env ''BASE_URL'' = Some b \<and> b \<noteq> [] \<and>
      env ''SERVER_AUTH_TOKEN'' = Some a \<and> a \<noteq> [] \<and>
      parseOrEmpty pe (env ''ENDPOINTS'') = Inr es \<and>
      parseOrEmpty pr (env ''QUERY_PARAMS'') = Inr qs
      \<longrightarrow> startup_server pe pr env =
            Running \<lparr>cronTimer = t, baseURL = b, endpoints = es, queryParams = qs,
                     serverAuthToken = a, clientAuthToken = env ''CLIENT_AUTH_TOKEN''\<rparr>"
    by (simp add: startup_server_def)
  have default_endpoints:
    "\<not> truthy (env ''ENDPOINTS'') \<longrightarrow> parseOrEmpty pe (env ''ENDPOINTS'') = Inr []"
    by (simp add: parseOrEmpty_default)
  have default_params:
    "\<not> truthy (env ''QUERY_PARAMS'') \<longrightarrow>
      parseOrEmpty pq (env ''QUERY_PARAMS'') = Inr [] \<and>
      parseOrEmpty pr (env ''QUERY_PARAMS'') = Inr []"
    by (simp add: parseOrEmpty_default)
  show ?thesis
    by (intro conjI index_exit index_run server_exit server_run default_endpoints default_params)
qed

theorem startup_validation_witness:
  "startup_index parseSample parseSample envMinimal =
     Running \<lparr>cronTimer = ''* * * * *'', baseURL = ''https://h'', endpoints = [],
              queryParams = [], cronSecret = None\<rparr> \<and>
   startup_server parseSample parseSample envBadParams =
     Exit 1 ''Error parsing JSON from environment variables: Unexpected token''"
proof -
  note inst = startup_validation [of envMinimal parseSample parseSample parseSample]
  have "startup_index parseSample parseSample envMinimal =
     Running \<lparr>cronTimer = ''* * * * *'', baseURL = ''https://h'', endpoints = [],
              queryParams = [], cronSecret = envMinimal ''CRON_SECRET''\<rparr>"
    by (rule inst [THEN conjunct2, THEN conjunct1, rule_format])
       (simp add: envMinimal_def parseOrEmpty_def)
  then have a: "startup_index parseSample parseSample envMinimal =
     Running \<lparr>cronTimer = ''* * * * *'', baseURL = ''https://h'', endpoints = [],
              queryParams = [], cronSecret = None\<rparr>"
    by (simp add: envMinimal_def)
  have b: "startup_server parseSample parseSample envBadParams =
     Exit 1 ''Error parsing JSON from environment variables: Unexpected token''"
    by (simp add: startup_server_def envBadParams_def parseOrEmpty_def parseSample_def)
  show ?thesis using a b by simp
qed

text \<open>
  The inbound secret is not optional in the server: with the schedule expression and the
  base URL set and nothing else, the server exits with status 1.
\<close>

theorem server_requires_inbound_secret:
  "truthy (envMinimal ''CRON_TIMER'') \<and> truthy (envMinimal ''BASE_URL'') \<and>
   parseOrEmpty parseSample (envMinimal ''ENDPOINTS'') = (Inr [] :: string + string list) \<and>
   parseOrEmpty parseSample (envMinimal ''QUERY_PARAMS'') = (Inr [] :: string + RangeParam list) \<and>
   envMinimal ''SERVER_AUTH_TOKEN'' = None \<and>
   startup_server parseSample parseSample envMinimal
     = Exit 1 ''Missing required environment variables''"
  by (simp add: startup_server_def envMinimal_def parseOrEmpty_def truthy_def)

end
